theory Spec2Isabelle
  imports Complex_Main "HOL-Library.Word"
begin

section \<open>JavaScript numbers\<close>

text \<open>
  A JavaScript number is a finite value, one of the two infinities, or NaN. Finite
  values are modelled by exact reals: the rounding of IEEE doubles and the sign of
  zero are not represented. The operations below follow ECMAScript on the special
  values, so every path on which the source produces \<open>-Infinity\<close> or \<open>NaN\<close> is a path
  of the model.
\<close>

datatype jsnum = NaN | NegInf | Fin real | PosInf

text \<open>\<open>isFinite(x)\<close>.\<close>

fun js_isFinite :: "jsnum \<Rightarrow> bool" where
  "js_isFinite (Fin r) = True"
| "js_isFinite NaN = False"
| "js_isFinite NegInf = False"
| "js_isFinite PosInf = False"

text \<open>\<open>x < y\<close> and \<open>x > y\<close>: false as soon as one operand is NaN.\<close>

fun js_lt :: "jsnum \<Rightarrow> jsnum \<Rightarrow> bool" where
  "js_lt NaN y = False"
| "js_lt x NaN = False"
| "js_lt PosInf y = False"
| "js_lt x NegInf = False"
| "js_lt NegInf y = True"
| "js_lt x PosInf = True"
| "js_lt (Fin a) (Fin b) = (a < b)"

definition js_gt :: "jsnum \<Rightarrow> jsnum \<Rightarrow> bool" where
  "js_gt x y = js_lt y x"

text \<open>\<open>x <= y\<close>, used to state monotonicity: also false on NaN.\<close>

definition js_le :: "jsnum \<Rightarrow> jsnum \<Rightarrow> bool" where
  "js_le x y = (x \<noteq> NaN \<and> y \<noteq> NaN \<and> \<not> js_lt y x)"

text \<open>\<open>Math.max(x, y)\<close>: NaN as soon as one argument is NaN.\<close>

fun js_max :: "jsnum \<Rightarrow> jsnum \<Rightarrow> jsnum" where
  "js_max NaN y = NaN"
| "js_max x NaN = NaN"
| "js_max x y = (if js_lt x y then y else x)"

text \<open>\<open>x / y\<close>. A zero divisor is the positive zero.\<close>

fun js_div :: "jsnum \<Rightarrow> jsnum \<Rightarrow> jsnum" where
  "js_div NaN y = NaN"
| "js_div x NaN = NaN"
| "js_div (Fin a) (Fin b) =
     (if b = 0 then (if a = 0 then NaN else if 0 < a then PosInf else NegInf)
      else Fin (a / b))"
| "js_div (Fin a) y = Fin 0"
| "js_div PosInf (Fin b) = (if 0 \<le> b then PosInf else NegInf)"
| "js_div NegInf (Fin b) = (if 0 \<le> b then NegInf else PosInf)"
| "js_div x y = NaN"

text \<open>\<open>x * y\<close>.\<close>

fun js_mul :: "jsnum \<Rightarrow> jsnum \<Rightarrow> jsnum" where
  "js_mul NaN y = NaN"
| "js_mul x NaN = NaN"
| "js_mul (Fin a) (Fin b) = Fin (a * b)"
| "js_mul (Fin a) PosInf = (if a = 0 then NaN else if 0 < a then PosInf else NegInf)"
| "js_mul (Fin a) NegInf = (if a = 0 then NaN else if 0 < a then NegInf else PosInf)"
| "js_mul PosInf (Fin b) = (if b = 0 then NaN else if 0 < b then PosInf else NegInf)"
| "js_mul NegInf (Fin b) = (if b = 0 then NaN else if 0 < b then NegInf else PosInf)"
| "js_mul PosInf PosInf = PosInf"
| "js_mul NegInf NegInf = PosInf"
| "js_mul PosInf NegInf = NegInf"
| "js_mul NegInf PosInf = NegInf"

text \<open>\<open>Math.sqrt(x)\<close> and \<open>Math.log10(x)\<close>.\<close>

fun js_sqrt :: "jsnum \<Rightarrow> jsnum" where
  "js_sqrt (Fin a) = (if a < 0 then NaN else Fin (sqrt a))"
| "js_sqrt PosInf = PosInf"
| "js_sqrt NegInf = NaN"
| "js_sqrt NaN = NaN"

fun js_log10 :: "jsnum \<Rightarrow> jsnum" where
  "js_log10 (Fin a) = (if a < 0 then NaN else if a = 0 then NegInf else Fin (log 10 a))"
| "js_log10 PosInf = PosInf"
| "js_log10 NegInf = NaN"
| "js_log10 NaN = NaN"

section \<open>The metrics of one sample window (js/analyzer.js, processAudioLoop)\<close>

text \<open>A \<open>Uint8Array\<close> is a list of bytes.\<close>

type_synonym uint8array = "8 word list"

text \<open>\<open>let silenceThreshold = -50\<close>: assigned once, at module scope.\<close>

definition silenceThreshold :: jsnum where
  "silenceThreshold = Fin (- 50)"

text \<open>
  The body of the \<open>for\<close> loop over \<open>timeDataArray\<close>. \<open>valueFloat\<close> is the
  constant of that name, as a function of the byte. The loop variables are
  \<open>(peakLinear, sumSquares, sumValues, clipping)\<close>; the three numbers are sums and
  maxima of finite values, so they are reals.
\<close>

definition valueFloat :: "8 word \<Rightarrow> real" where
  "valueFloat valueByte = real (unat valueByte) / 128 - 1"

fun sample_step :: "8 word \<Rightarrow> real \<times> real \<times> real \<times> bool \<Rightarrow> real \<times> real \<times> real \<times> bool" where
  "sample_step valueByte (peakLinear, sumSquares, sumValues, clipping) =
     (max peakLinear \<bar>valueFloat valueByte\<bar>,
      sumSquares + valueFloat valueByte * valueFloat valueByte,
      sumValues + valueFloat valueByte,
      (if valueByte \<ge> 254 \<or> valueByte \<le> 1 then True else clipping))"

fun for_samples :: "uint8array \<Rightarrow> real \<times> real \<times> real \<times> bool \<Rightarrow> real \<times> real \<times> real \<times> bool" where
  "for_samples [] acc = acc"
| "for_samples (valueByte # rest) acc = for_samples rest (sample_step valueByte acc)"

text \<open>The metrics object handed to \<open>onMetricsUpdate\<close>.\<close>

record metrics =
  peakVolume :: jsnum
  rmsVolume :: jsnum
  clipping :: bool
  isSilent :: bool
  noiseLevel :: jsnum
  dcOffset :: jsnum

text \<open>\<open>rmsDBFS\<close> of a window, before the floor for display.\<close>

definition rmsDBFS_of :: "uint8array \<Rightarrow> jsnum" where
  "rmsDBFS_of timeDataArray =
     (case for_samples timeDataArray (0, 0, 0, False) of
        (peakLinear, sumSquares, sumValues, clipping_v) \<Rightarrow>
          let rmsLinear = js_sqrt (js_div (Fin sumSquares) (Fin (real (length timeDataArray))))
          in (if js_gt rmsLinear (Fin 0) then js_mul (Fin 20) (js_log10 rmsLinear) else NegInf))"

text \<open>
  The section "Calculate Metrics" of one tick: from the window and the closure variable
  \<open>lastNoiseLevel\<close> to the metrics object and the new \<open>lastNoiseLevel\<close>.
\<close>

definition calculateMetrics :: "uint8array \<Rightarrow> jsnum \<Rightarrow> metrics \<times> jsnum" where
  "calculateMetrics timeDataArray lastNoiseLevel =
     (case for_samples timeDataArray (0, 0, 0, False) of
        (peakLinear, sumSquares, sumValues, clipping_v) \<Rightarrow>
          let n = Fin (real (length timeDataArray));
              rmsLinear = js_sqrt (js_div (Fin sumSquares) n);
              dcOffset_v = js_div (Fin sumValues) n;
              peakDBFS = (if js_gt (Fin peakLinear) (Fin 0)
                          then js_mul (Fin 20) (js_log10 (Fin peakLinear)) else NegInf);
              rmsDBFS = (if js_gt rmsLinear (Fin 0)
                         then js_mul (Fin 20) (js_log10 rmsLinear) else NegInf);
              isSilent_v = js_lt rmsDBFS silenceThreshold;
              lastNoiseLevel' = (if isSilent_v then js_max lastNoiseLevel rmsDBFS else lastNoiseLevel)
          in (\<lparr> peakVolume = (if js_isFinite peakDBFS then peakDBFS else Fin (- 100)),
                 rmsVolume = (if js_isFinite rmsDBFS then rmsDBFS else Fin (- 100)),
                 clipping = clipping_v,
                 isSilent = isSilent_v,
                 noiseLevel = (if js_isFinite lastNoiseLevel' then lastNoiseLevel' else Fin (- 100)),
                 dcOffset = dcOffset_v \<rparr>,
              lastNoiseLevel'))"

text \<open>
  Successive ticks of one analysis run: \<open>lastNoiseLevel\<close> is a variable of the closure
  that \<open>startAnalysis\<close> creates, so each tick starts from the value the tick before left.
  The function returns the value after the ticks on the given windows.
\<close>

fun run_ticks :: "uint8array list \<Rightarrow> jsnum \<Rightarrow> jsnum" where
  "run_ticks [] lastNoiseLevel = lastNoiseLevel"
| "run_ticks (w # ws) lastNoiseLevel = run_ticks ws (snd (calculateMetrics w lastNoiseLevel))"

subsection \<open>Closed forms of the loop variables\<close>

text \<open>What \<open>peakLinear\<close> and \<open>sumSquares\<close> hold when the loop ends.\<close>

definition peak_of :: "uint8array \<Rightarrow> real" where
  "peak_of w = Max (insert 0 ((\<lambda>b. \<bar>valueFloat b\<bar>) ` set w))"

definition sumsq_of :: "uint8array \<Rightarrow> real" where
  "sumsq_of w = sum_list (map (\<lambda>b. valueFloat b * valueFloat b) w)"

subsection \<open>The metrics as the specification words them\<close>

text \<open>
  The specification's formulas, written from its text: the normalized amplitude of a byte,
  the peak, the root mean square and the mean of a window, and the conversion to decibels
  with its floor.
\<close>

definition spec_normalize :: "8 word \<Rightarrow> real" where
  "spec_normalize b = (real (unat b) / 128.0) - 1.0"

definition spec_peakLinear :: "uint8array \<Rightarrow> real" where
  "spec_peakLinear w = Max ((\<lambda>b. \<bar>spec_normalize b\<bar>) ` set w)"

definition spec_mean :: "real list \<Rightarrow> real" where
  "spec_mean xs = sum_list xs / real (length xs)"

definition spec_rmsLinear :: "uint8array \<Rightarrow> real" where
  "spec_rmsLinear w = sqrt (spec_mean (map (\<lambda>b. (spec_normalize b)\<^sup>2) w))"

definition spec_dcOffset :: "uint8array \<Rightarrow> real" where
  "spec_dcOffset w = spec_mean (map spec_normalize w)"

definition spec_floorDb :: real where
  "spec_floorDb = - 100"

definition spec_dB :: "real \<Rightarrow> real" where
  "spec_dB x = (if x > 0 then 20 * log 10 x else spec_floorDb)"

section \<open>Recording: blobs, recorders and callbacks\<close>

text \<open>
  A \<open>Blob\<close> is its bytes and its type; \<open>blob.size\<close> is the number of bytes.
  \<open>new Blob(parts, {type: t})\<close> concatenates the parts in order; its type is \<open>t\<close> in
  ASCII lower case, or the empty string when \<open>t\<close> has a character outside U+0020 to
  U+007E. \<open>URL.createObjectURL(blob)\<close> returns a handle that the host resolves to the
  blob; the handle is modelled by the blob it stands for.
\<close>

record blob =
  blob_data :: "8 word list"
  blob_type :: string

definition blob_size :: "blob \<Rightarrow> nat" where
  "blob_size b = length (blob_data b)"

definition ascii_lower :: "char \<Rightarrow> char" where
  "ascii_lower c =
     (case map_of (zip ''ABCDEFGHIJKLMNOPQRSTUVWXYZ'' ''abcdefghijklmnopqrstuvwxyz'') c of
        Some l \<Rightarrow> l
      | None \<Rightarrow> c)"

definition blob_type_of :: "string \<Rightarrow> string" where
  "blob_type_of t =
     (if list_all (\<lambda>c. 32 \<le> (of_char c :: nat) \<and> (of_char c :: nat) \<le> 126) t
      then map ascii_lower t else [])"

definition new_Blob :: "blob list \<Rightarrow> string \<Rightarrow> blob" where
  "new_Blob parts t = \<lparr> blob_data = concat (map blob_data parts), blob_type = blob_type_of t \<rparr>"

datatype objectURL = ObjectURL blob

text \<open>\<open>a || b\<close> on strings: the empty string is falsy.\<close>

definition js_or :: "string \<Rightarrow> string \<Rightarrow> string" where
  "js_or a b = (if a = [] then b else a)"

text \<open>
  A callback argument is either a function, identified by a number, or something that is
  not a function (\<open>None\<close>). \<open>invoke cb mk\<close> is
  \<open>if (typeof cb === 'function') cb(...)\<close>: the call is recorded as an effect.
\<close>

type_synonym callback = nat

fun invoke :: "callback option \<Rightarrow> (callback \<Rightarrow> 'e) \<Rightarrow> 'e list" where
  "invoke None mk = []"
| "invoke (Some f) mk = [mk f]"

text \<open>
  A \<open>MediaRecorder\<close>: its \<open>state\<close> (\<open>pause()\<close> is never called, so it is
  \<open>'inactive'\<close> or \<open>'recording'\<close>), its \<open>mimeType\<close>, and the two fields
  \<open>_onRecordingStopCallback\<close> and \<open>_onErrorCallback\<close> that js/analyzer.js attaches to it.
\<close>

datatype recorder_state = Inactive | Recording

record recorder =
  state :: recorder_state
  mimeType :: string
  onRecordingStopCallback :: "callback option"
  onErrorCallback :: "callback option"

section \<open>Recording in js/analyzer.js\<close>

text \<open>
  The module variables of the recording part. A pending \<open>setTimeout\<close> is the pair of
  callbacks its closure captured; \<open>clearTimeout\<close> and the firing of the timer both leave
  no pending timer. Calls to the caller's callbacks are the effects.
\<close>

record rec_module =
  mediaRecorder :: "recorder option"
  recordedChunks :: "blob list"
  recordingTimerId :: "(callback option \<times> callback option) option"

datatype rec_effect =
    OnRecordingStart callback
  | OnRecordingStop callback objectURL
  | OnError callback string

definition startRecording ::
  "callback option \<Rightarrow> callback option \<Rightarrow> callback option \<Rightarrow> rec_module
     \<Rightarrow> rec_effect list \<times> rec_module" where
  "startRecording onRecordingStart onRecordingStop onError m =
     (case mediaRecorder m of
        None \<Rightarrow> (invoke onError (\<lambda>f. OnError f ''RecordingNotSupported''), m)
      | Some r \<Rightarrow>
          if state r = Recording then ([], m)
          else (invoke onRecordingStart OnRecordingStart,
                m \<lparr> recordedChunks := [],
                    mediaRecorder := Some (r \<lparr> state := Recording \<rparr>),
                    recordingTimerId := Some (onRecordingStop, onError) \<rparr>))"

definition stopRecording ::
  "callback option \<Rightarrow> callback option \<Rightarrow> rec_module \<Rightarrow> rec_effect list \<times> rec_module" where
  "stopRecording onRecordingStop onError m =
     (case mediaRecorder m of
        None \<Rightarrow> ([], m \<lparr> recordingTimerId := None \<rparr>)
      | Some r \<Rightarrow>
          if state r = Inactive then ([], m \<lparr> recordingTimerId := None \<rparr>)
          else ([], m \<lparr> mediaRecorder :=
                          Some (r \<lparr> state := Inactive,
                                   onRecordingStopCallback := onRecordingStop,
                                   onErrorCallback := onError \<rparr>) \<rparr>))"

text \<open>The timer set by \<open>startRecording\<close> fires: it calls \<open>stopRecording\<close>.\<close>

definition timer_fires :: "rec_module \<Rightarrow> rec_effect list \<times> rec_module" where
  "timer_fires m =
     (case recordingTimerId m of
        None \<Rightarrow> ([], m)
      | Some (onRecordingStop, onError) \<Rightarrow>
          stopRecording onRecordingStop onError (m \<lparr> recordingTimerId := None \<rparr>))"

text \<open>
  The listeners that \<open>setupMediaRecorderListeners\<close> attaches to \<open>recorder\<close>. Each takes
  the recorder and the module variables and returns them updated.
\<close>

definition ondataavailable :: "blob \<Rightarrow> rec_module \<Rightarrow> rec_module" where
  "ondataavailable event_data m =
     (if blob_size event_data > 0
      then m \<lparr> recordedChunks := recordedChunks m @ [event_data] \<rparr>
      else m)"

definition onstop :: "recorder \<Rightarrow> rec_module \<Rightarrow> rec_effect list \<times> recorder \<times> rec_module" where
  "onstop recorder m =
     (if length (recordedChunks m) = 0
      then (invoke (onErrorCallback recorder) (\<lambda>f. OnError f ''NoDataRecorded''),
            recorder \<lparr> onRecordingStopCallback := None, onErrorCallback := None \<rparr>,
            m \<lparr> recordingTimerId := None \<rparr>)
      else
        let blob = new_Blob (recordedChunks m) (js_or (mimeType recorder) ''audio/webm'');
            blobUrl = ObjectURL blob
        in (invoke (onRecordingStopCallback recorder) (\<lambda>f. OnRecordingStop f blobUrl),
            recorder \<lparr> onRecordingStopCallback := None, onErrorCallback := None \<rparr>,
            m \<lparr> recordingTimerId := None, recordedChunks := [] \<rparr>))"

definition onerror ::
  "string \<Rightarrow> string \<Rightarrow> recorder \<Rightarrow> rec_module \<Rightarrow> rec_effect list \<times> recorder \<times> rec_module" where
  "onerror error_name error_message recorder m =
     (invoke (onErrorCallback recorder)
        (\<lambda>f. OnError f (''RecorderError: '' @ js_or error_name (js_or error_message ''Unknown error''))),
      recorder \<lparr> onRecordingStopCallback := None, onErrorCallback := None \<rparr>,
      m \<lparr> recordingTimerId := None \<rparr>)"

text \<open>
  What can happen to the module: a call of its interface, the timer, or an event that the
  host delivers to the recorder held in \<open>mediaRecorder\<close>. The listeners run on that
  recorder, which is written back.
\<close>

datatype rec_event =
    StartRecording "callback option" "callback option" "callback option"
  | StopRecording "callback option" "callback option"
  | TimerFires
  | DataAvailable blob
  | Stop
  | Error string string

fun rec_step :: "rec_event \<Rightarrow> rec_module \<Rightarrow> rec_effect list \<times> rec_module" where
  "rec_step (StartRecording a b c) m = startRecording a b c m"
| "rec_step (StopRecording b c) m = stopRecording b c m"
| "rec_step TimerFires m = timer_fires m"
| "rec_step (DataAvailable d) m =
     (case mediaRecorder m of None \<Rightarrow> ([], m) | Some r \<Rightarrow> ([], ondataavailable d m))"
| "rec_step Stop m =
     (case mediaRecorder m of
        None \<Rightarrow> ([], m)
      | Some r \<Rightarrow> (case onstop r m of (es, r', m') \<Rightarrow> (es, m' \<lparr> mediaRecorder := Some r' \<rparr>)))"
| "rec_step (Error n msg) m =
     (case mediaRecorder m of
        None \<Rightarrow> ([], m)
      | Some r \<Rightarrow> (case onerror n msg r m of (es, r', m') \<Rightarrow> (es, m' \<lparr> mediaRecorder := Some r' \<rparr>)))"

fun rec_run :: "rec_event list \<Rightarrow> rec_module \<Rightarrow> rec_effect list \<times> rec_module" where
  "rec_run [] m = ([], m)"
| "rec_run (ev # evs) m =
     (case rec_step ev m of (es, m') \<Rightarrow>
        (case rec_run evs m' of (es', m'') \<Rightarrow> (es @ es', m'')))"

text \<open>The success callback of an effect, if it is one, carries a non-empty artifact.\<close>

fun artifact_nonempty :: "rec_effect \<Rightarrow> bool" where
  "artifact_nonempty (OnRecordingStop f (ObjectURL b)) = (0 < blob_size b)"
| "artifact_nonempty (OnRecordingStart f) = True"
| "artifact_nonempty (OnError f msg) = True"

section \<open>The analyser node and its windows\<close>

text \<open>
  The host's \<open>AnalyserNode\<close>, as far as the code reads it: \<open>fftSize\<close> is set by the
  code, and \<open>frequencyBinCount\<close> is half of it (Web Audio API). The current time-domain
  and frequency-domain data of the node are functions from the index to the byte.
  \<open>getByteTimeDomainData(array)\<close> overwrites the first \<open>fftSize\<close> elements of the array
  and \<open>getByteFrequencyData(array)\<close> the first \<open>frequencyBinCount\<close>; a shorter array
  takes only as many elements as it has. Neither changes the length of the array.
\<close>

definition FFT_SIZE :: nat where
  "FFT_SIZE = 2048"

record analyser =
  fftSize :: nat

definition frequencyBinCount :: "analyser \<Rightarrow> nat" where
  "frequencyBinCount node = fftSize node div 2"

definition new_Uint8Array :: "nat \<Rightarrow> uint8array" where
  "new_Uint8Array n = replicate n 0"

definition getByteTimeDomainData :: "analyser \<Rightarrow> (nat \<Rightarrow> 8 word) \<Rightarrow> uint8array \<Rightarrow> uint8array" where
  "getByteTimeDomainData node src array =
     map src [0 ..< min (length array) (fftSize node)] @ drop (fftSize node) array"

definition getByteFrequencyData :: "analyser \<Rightarrow> (nat \<Rightarrow> 8 word) \<Rightarrow> uint8array \<Rightarrow> uint8array" where
  "getByteFrequencyData node src array =
     map src [0 ..< min (length array) (frequencyBinCount node)] @ drop (frequencyBinCount node) array"

section \<open>Monitoring and recording in js/audio.js\<close>

text \<open>
  The module variables that monitoring and recording read and write (the audio context,
  the source node and the device id are not modelled). Calls into js/ui.js and the
  visualizer's drawing calls are the effects; the translation function is not an argument
  of the effects. The size in the status of a finished recording is the number of bytes,
  not the text \<open>formatBytes\<close> makes of it.
\<close>

datatype param = ErrorName string | Size nat | Type string

datatype ui_call =
    SetStatus string string "param list"
  | SetRecordingStatus string string "param list"
  | UpdateButtonStates bool bool bool
  | ShowAnalysisSection bool
  | ShowRecordingSection bool
  | HidePlayback
  | DisplayPlayback objectURL blob
  | UpdateVolumeMeter real
  | UpdateResultsBar int "nat option"
  | DrawWaveform uint8array nat
  | DrawFrequencySpectrum uint8array nat

record audio_module =
  isMonitoring :: bool
  isRecording :: bool
  mediaStream :: "unit option"
  mediaRecorderSupported :: bool
  mediaRecorder_a :: "recorder option"
  audioChunks :: "blob list"
  analyserNode_a :: "analyser option"
  timeDomainData :: "uint8array option"
  frequencyData :: "uint8array option"

subsection \<open>Recording\<close>

text \<open>
  The options object of \<open>new MediaRecorder\<close> is its \<open>mimeType\<close> member; \<open>{}\<close> is
  \<open>None\<close>. \<open>negotiateOptions\<close> is the nest of \<open>if (!MediaRecorder.isTypeSupported(...))\<close>
  at the start of \<open>startRecording\<close>.
\<close>

type_synonym recorder_options = "string option"

definition negotiateOptions :: "(string \<Rightarrow> bool) \<Rightarrow> recorder_options" where
  "negotiateOptions isTypeSupported =
     (if \<not> isTypeSupported ''audio/webm;codecs=opus'' then
        (if \<not> isTypeSupported ''audio/ogg;codecs=opus'' then
           (if \<not> isTypeSupported ''audio/webm'' then None
            else Some ''audio/webm'')
         else Some ''audio/ogg;codecs=opus'')
      else Some ''audio/webm;codecs=opus'')"

text \<open>
  What the host answers while \<open>startRecording\<close> runs: the capability query, the
  constructor (the name of the exception it throws, or the \<open>mimeType\<close> of the new
  recorder) and \<open>start()\<close> (the name of the exception it throws, if any).
\<close>

record recorder_host =
  isTypeSupported :: "string \<Rightarrow> bool"
  construct :: "recorder_options \<Rightarrow> string + string"
  start_throws :: "string option"

definition startRecording_audio :: "recorder_host \<Rightarrow> audio_module \<Rightarrow> ui_call list \<times> audio_module" where
  "startRecording_audio host m =
     (if \<not> isMonitoring m \<or> mediaStream m = None \<or> \<not> mediaRecorderSupported m
      then ([SetRecordingStatus ''recStatusCannotStart'' ''warning'' []], m)
      else if isRecording m then ([], m)
      else
        let m1 = m \<lparr> audioChunks := [] \<rparr>;
            options = negotiateOptions (isTypeSupported host)
        in (case construct host options of
              Inl err_name \<Rightarrow>
                ([SetRecordingStatus ''recStatusErrorStart'' ''error'' [ErrorName err_name],
                  UpdateButtonStates (isMonitoring m1) False (mediaRecorderSupported m1)],
                 m1 \<lparr> isRecording := False \<rparr>)
            | Inr mime \<Rightarrow>
                let r = \<lparr> state = Inactive, mimeType = mime,
                          onRecordingStopCallback = None, onErrorCallback = None \<rparr>;
                    m2 = m1 \<lparr> mediaRecorder_a := Some r \<rparr>
                in (case start_throws host of
                      Some err_name \<Rightarrow>
                        ([SetRecordingStatus ''recStatusErrorStart'' ''error'' [ErrorName err_name],
                          UpdateButtonStates (isMonitoring m2) False (mediaRecorderSupported m2)],
                         m2 \<lparr> isRecording := False \<rparr>)
                    | None \<Rightarrow>
                        ([SetRecordingStatus ''recStatusRecording'' ''info'' [],
                          HidePlayback,
                          ShowRecordingSection True,
                          UpdateButtonStates (isMonitoring m2) True (mediaRecorderSupported m2)],
                         m2 \<lparr> mediaRecorder_a := Some (r \<lparr> state := Recording \<rparr>),
                              isRecording := True \<rparr>))))"

text \<open>The three listeners that \<open>startRecording\<close> attaches to the new recorder.\<close>

definition ondataavailable_audio :: "blob \<Rightarrow> audio_module \<Rightarrow> audio_module" where
  "ondataavailable_audio event_data m =
     (if blob_size event_data > 0
      then m \<lparr> audioChunks := audioChunks m @ [event_data] \<rparr>
      else m)"

definition onstop_audio :: "recorder \<Rightarrow> audio_module \<Rightarrow> ui_call list \<times> audio_module" where
  "onstop_audio mediaRecorder_v m =
     (if length (audioChunks m) = 0
      then ([SetRecordingStatus ''recStatusEmpty'' ''warning'' [],
             UpdateButtonStates (isMonitoring m) False (mediaRecorderSupported m),
             HidePlayback],
            m \<lparr> isRecording := False \<rparr>)
      else
        let audioBlob = new_Blob (audioChunks m) (js_or (mimeType mediaRecorder_v) ''audio/webm'');
            audioUrl = ObjectURL audioBlob
        in ([DisplayPlayback audioUrl audioBlob,
             ShowRecordingSection True,
             SetRecordingStatus ''recStatusFinished'' ''success''
               [Size (blob_size audioBlob), Type (js_or (blob_type audioBlob) ''N/A'')],
             UpdateButtonStates (isMonitoring m) False (mediaRecorderSupported m)],
            m \<lparr> isRecording := False, audioChunks := [] \<rparr>))"

definition onerror_audio :: "string \<Rightarrow> audio_module \<Rightarrow> ui_call list \<times> audio_module" where
  "onerror_audio error_name m =
     ([SetRecordingStatus ''recStatusError'' ''error'' [ErrorName error_name],
       UpdateButtonStates (isMonitoring m) False (mediaRecorderSupported m),
       HidePlayback],
      m \<lparr> isRecording := False \<rparr>)"

text \<open>
  \<open>stopRecording\<close>. The argument is the name of the exception that \<open>mediaRecorder.stop()\<close>
  throws, if it throws.
\<close>

definition stopRecording_audio :: "string option \<Rightarrow> audio_module \<Rightarrow> ui_call list \<times> audio_module" where
  "stopRecording_audio stop_throws m =
     (case mediaRecorder_a m of
        None \<Rightarrow> ([], m)
      | Some r \<Rightarrow>
          if \<not> isRecording m \<or> state r = Inactive then ([], m)
          else (case stop_throws of
                  None \<Rightarrow>
                    ([SetRecordingStatus ''recStatusStopping'' ''info'' []],
                     m \<lparr> mediaRecorder_a := Some (r \<lparr> state := Inactive \<rparr>) \<rparr>)
                | Some err_name \<Rightarrow>
                    ([SetRecordingStatus ''recStatusStopping'' ''info'' [],
                      SetRecordingStatus ''recStatusErrorStop'' ''error'' [ErrorName err_name],
                      UpdateButtonStates (isMonitoring m) False (mediaRecorderSupported m),
                      HidePlayback],
                     m \<lparr> isRecording := False \<rparr>)))"

subsection \<open>Monitoring (js/audio.js), the visualizer's \<open>draw\<close> and the loop of js/main.js\<close>

text \<open>
  \<open>startMonitoring\<close> takes what \<open>getUserMedia\<close> answers: the name of the error it rejects
  with, or a stream, of which the model keeps the sample rate of the context built on it.
  \<open>stopMonitoring\<close> takes what \<open>stopRecording\<close> needs.

  js/ui.js exports no \<open>clearVisualizations\<close>, so \<open>ui.clearVisualizations()\<close> at the end of
  \<open>stopMonitoring\<close> throws a \<open>TypeError\<close>: the status \<open>statusStopped\<close> after it is never
  set, and the promise of \<open>stopMonitoring\<close> is rejected. The module variables are all
  written before that call. The first component of the result is the name of the exception,
  if one is thrown. \<open>startMonitoring\<close> awaits \<open>stopMonitoring\<close> in its \<open>catch\<close> block, so it
  is rejected with the same exception instead of returning \<open>false\<close>.
\<close>

definition startError_key :: "string \<Rightarrow> string" where
  "startError_key err_name =
     (if err_name = ''NotAllowedError'' \<or> err_name = ''PermissionDeniedError''
        then ''statusPermissionDenied''
      else if err_name = ''NotFoundError'' \<or> err_name = ''DevicesNotFoundError''
        then ''statusMicNotFoundOnStart''
      else if err_name = ''NotReadableError'' \<or> err_name = ''TrackStartError''
        then ''statusMicInUse''
      else if err_name = ''OverconstrainedError'' then ''statusMicConstraint''
      else ''statusErrorStartingMic'')"

definition stopMonitoring ::
  "string option \<Rightarrow> audio_module \<Rightarrow> string option \<times> ui_call list \<times> audio_module" where
  "stopMonitoring stop_throws m =
     (if \<not> isMonitoring m \<and> mediaStream m = None then (None, [], m)
      else
        case (if isRecording m then stopRecording_audio stop_throws m else ([], m)) of
          (es, m1) \<Rightarrow>
            let m2 = m1 \<lparr> mediaStream := None, analyserNode_a := None, isMonitoring := False,
                          timeDomainData := None, frequencyData := None \<rparr>
            in (Some ''TypeError'',
                es @ [ShowAnalysisSection False, ShowRecordingSection False, HidePlayback,
                      UpdateButtonStates (isMonitoring m2) (isRecording m2) (mediaRecorderSupported m2),
                      UpdateVolumeMeter 0, UpdateResultsBar 0 None],
                m2))"

definition startMonitoring ::
  "string + nat \<Rightarrow> string option \<Rightarrow> audio_module
     \<Rightarrow> (string + bool) \<times> ui_call list \<times> audio_module" where
  "startMonitoring getUserMedia stop_throws m =
     (if isMonitoring m then (Inr True, [], m)
      else
        case getUserMedia of
          Inr sampleRate \<Rightarrow>
            let node = \<lparr> fftSize = FFT_SIZE \<rparr>;
                m1 = m \<lparr> mediaStream := Some (), analyserNode_a := Some node,
                         timeDomainData := Some (new_Uint8Array (frequencyBinCount node)),
                         frequencyData := Some (new_Uint8Array (frequencyBinCount node)),
                         isMonitoring := True \<rparr>
            in (Inr True,
                [SetStatus ''statusStarting'' ''info'' [],
                 ShowAnalysisSection True,
                 UpdateButtonStates (isMonitoring m1) (isRecording m1) (mediaRecorderSupported m1),
                 UpdateResultsBar 0 (Some sampleRate),
                 SetStatus ''statusMonitoring'' ''success'' []],
                m1)
        | Inl err_name \<Rightarrow>
            (case stopMonitoring stop_throws m of
               (thrown, es, m1) \<Rightarrow>
                 ((case thrown of None \<Rightarrow> Inr False | Some exception \<Rightarrow> Inl exception),
                  [SetStatus ''statusStarting'' ''info'' [],
                   SetStatus (startError_key err_name) ''error'' [ErrorName err_name]] @ es,
                  m1)))"

text \<open>
  \<open>draw\<close> of js/visualizer.js: it fills the two arrays, takes the peak of the first
  \<open>bufferLength\<close> samples (an index past the end of the array reads \<open>undefined\<close>, which
  never raises the peak), and hands each array with \<open>bufferLength\<close> to the drawing
  function. It returns the peak, the drawing calls and the arrays as filled.
\<close>

definition draw ::
  "analyser option \<Rightarrow> uint8array option \<Rightarrow> uint8array option \<Rightarrow> (nat \<Rightarrow> 8 word) \<Rightarrow> (nat \<Rightarrow> 8 word)
     \<Rightarrow> real \<times> ui_call list \<times> uint8array option \<times> uint8array option" where
  "draw node_opt td_opt fd_opt td_src fd_src =
     (case (node_opt, td_opt, fd_opt) of
        (Some node, Some td, Some fd) \<Rightarrow>
          let bufferLength = frequencyBinCount node;
              td' = getByteTimeDomainData node td_src td;
              fd' = getByteFrequencyData node fd_src fd;
              peak = fold (\<lambda>b peak. if \<bar>valueFloat b\<bar> > peak then \<bar>valueFloat b\<bar> else peak)
                       (take bufferLength td') 0
          in (peak, [DrawWaveform td' bufferLength, DrawFrequencySpectrum fd' bufferLength],
              Some td', Some fd')
      | _ \<Rightarrow> (0, [], td_opt, fd_opt))"

text \<open>One run of \<open>visualizationLoop\<close> of js/main.js, without the request for the next frame.\<close>

definition visualizationLoop ::
  "(nat \<Rightarrow> 8 word) \<Rightarrow> (nat \<Rightarrow> 8 word) \<Rightarrow> audio_module \<Rightarrow> ui_call list \<times> audio_module" where
  "visualizationLoop td_src fd_src m =
     (if \<not> isMonitoring m then ([], m)
      else if analyserNode_a m \<noteq> None \<and> timeDomainData m \<noteq> None \<and> frequencyData m \<noteq> None
      then
        (case draw (analyserNode_a m) (timeDomainData m) (frequencyData m) td_src fd_src of
           (volumeLevel, es, td', fd') \<Rightarrow>
             (es @ [UpdateVolumeMeter volumeLevel, UpdateResultsBar (round (volumeLevel * 100)) None],
              m \<lparr> timeDomainData := td', frequencyData := fd' \<rparr>))
      else ([], m))"

text \<open>
  The time-domain window and the frequency-domain window that an effect hands to the
  drawing functions have the given lengths.
\<close>

fun drawn_windows_sized :: "nat \<Rightarrow> nat \<Rightarrow> ui_call \<Rightarrow> bool" where
  "drawn_windows_sized n k (DrawWaveform w bufferLength) = (length w = n)"
| "drawn_windows_sized n k (DrawFrequencySpectrum w bufferLength) = (length w = k)"
| "drawn_windows_sized n k other = True"

subsection \<open>Calls and events\<close>

text \<open>
  What can happen to the module: a call of its interface, a run of the visualization
  loop, or an event that the host delivers to the recorder in \<open>mediaRecorder\<close>.
\<close>

datatype audio_event =
    AStartMonitoring "string + nat" "string option"
  | AStopMonitoring "string option"
  | AVisualizationLoop "nat \<Rightarrow> 8 word" "nat \<Rightarrow> 8 word"
  | AStartRecording recorder_host
  | AStopRecording "string option"
  | ADataAvailable blob
  | AStop
  | AError string

fun audio_step :: "audio_event \<Rightarrow> audio_module \<Rightarrow> ui_call list \<times> audio_module" where
  "audio_step (AStartMonitoring getUserMedia stop_throws) m =
     snd (startMonitoring getUserMedia stop_throws m)"
| "audio_step (AStopMonitoring stop_throws) m = snd (stopMonitoring stop_throws m)"
| "audio_step (AVisualizationLoop td_src fd_src) m = visualizationLoop td_src fd_src m"
| "audio_step (AStartRecording host) m = startRecording_audio host m"
| "audio_step (AStopRecording stop_throws) m = stopRecording_audio stop_throws m"
| "audio_step (ADataAvailable d) m =
     (case mediaRecorder_a m of None \<Rightarrow> ([], m) | Some r \<Rightarrow> ([], ondataavailable_audio d m))"
| "audio_step AStop m =
     (case mediaRecorder_a m of None \<Rightarrow> ([], m) | Some r \<Rightarrow> onstop_audio r m)"
| "audio_step (AError n) m =
     (case mediaRecorder_a m of None \<Rightarrow> ([], m) | Some r \<Rightarrow> onerror_audio n m)"

fun audio_run :: "audio_event list \<Rightarrow> audio_module \<Rightarrow> ui_call list \<times> audio_module" where
  "audio_run [] m = ([], m)"
| "audio_run (ev # evs) m =
     (case audio_step ev m of (es, m') \<Rightarrow>
        (case audio_run evs m' of (es', m'') \<Rightarrow> (es @ es', m'')))"

text \<open>The player of an effect, if it shows one, is given a non-empty artifact.\<close>

fun playback_nonempty :: "ui_call \<Rightarrow> bool" where
  "playback_nonempty (DisplayPlayback (ObjectURL b) b') = (0 < blob_size b \<and> 0 < blob_size b')"
| "playback_nonempty other = True"

text \<open>
  The module as the script leaves it when it is loaded; the argument is
  \<open>'MediaRecorder' in window\<close>.
\<close>

definition audio_init :: "bool \<Rightarrow> audio_module" where
  "audio_init supported =
     \<lparr> isMonitoring = False, isRecording = False, mediaStream = None,
       mediaRecorderSupported = supported, mediaRecorder_a = None, audioChunks = [],
       analyserNode_a = None, timeDomainData = None, frequencyData = None \<rparr>"

subsection \<open>Codec negotiation as the specification words it\<close>

text \<open>
  The ordered preference list: Opus in WebM, Opus in Ogg, default WebM, platform default.
  The platform default is not queried; it is taken when nothing before it is supported.
\<close>

definition spec_candidates :: "recorder_options list" where
  "spec_candidates =
     [Some ''audio/webm;codecs=opus'', Some ''audio/ogg;codecs=opus'', Some ''audio/webm'', None]"

fun spec_supported :: "(string \<Rightarrow> bool) \<Rightarrow> recorder_options \<Rightarrow> bool" where
  "spec_supported supported (Some format) = supported format"
| "spec_supported supported None = True"

definition spec_negotiate :: "(string \<Rightarrow> bool) \<Rightarrow> recorder_options" where
  "spec_negotiate supported =
     (case find (spec_supported supported) spec_candidates of
        Some candidate \<Rightarrow> candidate
      | None \<Rightarrow> None)"

section \<open>The analysis loop of js/analyzer.js\<close>

text \<open>
  \<open>processAudioLoop\<close> is a closure over the variables of one call of \<open>startAnalysis\<close>:
  the two subscribers, the two arrays and \<open>lastNoiseLevel\<close>. The host keeps the map of
  animation frame callbacks, here the closures that were requested and not yet run or
  cancelled, in the order of the requests, and the last handle it gave; handles count up
  from 1.

  A subscriber is code of the caller that the tick runs. It is a function, identified by a
  number, together with the calls that its body makes to the two synchronous functions of
  the module that act on the loop, \<open>stopAnalysis\<close> and \<open>startAnalysis\<close>, in their order;
  an observer, as the two subscribers of js/app.js, makes none. The call of the subscriber
  is an effect; the calls that it makes run before the tick goes on.
\<close>

datatype subscriber = Subscriber nat "module_call list"
  and module_call = CallStopAnalysis | CallStartAnalysis "subscriber option" "subscriber option"

datatype context_state = Suspended | Running | Closed

record loop_closure =
  onMetricsUpdate :: "subscriber option"
  onVisualizationUpdate :: "subscriber option"
  timeDataArray :: uint8array
  frequencyDataArray :: uint8array
  lastNoiseLevel :: jsnum

record analyzer_module =
  audioContext :: "context_state option"
  analyserNode :: "analyser option"
  animationFrameId :: "nat option"
  frame_callbacks :: "(nat \<times> loop_closure) list"
  frame_handle :: nat

datatype loop_effect =
    MetricsUpdate nat metrics
  | VisualizationUpdate nat uint8array uint8array

text \<open>\<open>if (animationFrameId)\<close>: \<open>undefined\<close>, \<open>null\<close> and 0 are falsy.\<close>

fun truthy :: "nat option \<Rightarrow> bool" where
  "truthy None = False"
| "truthy (Some n) = (n \<noteq> 0)"

definition requestAnimationFrame :: "loop_closure \<Rightarrow> analyzer_module \<Rightarrow> nat \<times> analyzer_module" where
  "requestAnimationFrame cb m =
     (let handle = frame_handle m + 1
      in (handle, m \<lparr> frame_handle := handle,
                       frame_callbacks := frame_callbacks m @ [(handle, cb)] \<rparr>))"

definition cancelAnimationFrame :: "nat \<Rightarrow> analyzer_module \<Rightarrow> analyzer_module" where
  "cancelAnimationFrame handle m =
     m \<lparr> frame_callbacks := filter (\<lambda>(h, cb). h \<noteq> handle) (frame_callbacks m) \<rparr>"

definition stopAnalysis :: "analyzer_module \<Rightarrow> analyzer_module" where
  "stopAnalysis m =
     (case animationFrameId m of
        None \<Rightarrow> m
      | Some handle \<Rightarrow>
          if truthy (Some handle)
          then (cancelAnimationFrame handle m) \<lparr> animationFrameId := None \<rparr>
          else m)"

definition startAnalysis ::
  "subscriber option \<Rightarrow> subscriber option \<Rightarrow> analyzer_module \<Rightarrow> analyzer_module" where
  "startAnalysis onMetricsUpdate_v onVisualizationUpdate_v m =
     (case (analyserNode m, audioContext m) of
        (Some node, Some ctx_state) \<Rightarrow>
          if ctx_state = Closed then m
          else if truthy (animationFrameId m) then m
          else
            let m1 = (if ctx_state = Suspended then m \<lparr> audioContext := Some Running \<rparr> else m);
                closure = \<lparr> onMetricsUpdate = onMetricsUpdate_v,
                            onVisualizationUpdate = onVisualizationUpdate_v,
                            timeDataArray = new_Uint8Array (fftSize node),
                            frequencyDataArray = new_Uint8Array (frequencyBinCount node),
                            lastNoiseLevel = NegInf \<rparr>
            in (case requestAnimationFrame closure m1 of
                  (handle, m2) \<Rightarrow> m2 \<lparr> animationFrameId := Some handle \<rparr>)
      | _ \<Rightarrow> m)"

text \<open>
  \<open>if (typeof subscriber === 'function') subscriber(...)\<close>: the call is an effect, and the
  calls that the subscriber's body makes to the module run one after the other.
\<close>

fun run_call :: "module_call \<Rightarrow> analyzer_module \<Rightarrow> analyzer_module" where
  "run_call CallStopAnalysis m = stopAnalysis m"
| "run_call (CallStartAnalysis a b) m = startAnalysis a b m"

fun run_subscriber ::
  "subscriber option \<Rightarrow> (nat \<Rightarrow> loop_effect) \<Rightarrow> analyzer_module \<Rightarrow> loop_effect list \<times> analyzer_module" where
  "run_subscriber None mk m = ([], m)"
| "run_subscriber (Some (Subscriber f calls)) mk m = ([mk f], fold run_call calls m)"

text \<open>
  One tick: \<open>processAudioLoop\<close> as the host calls it, with the closure's variables and the
  node's current data. After the two subscribers have run, the tick requests the next frame
  and stores its handle, whatever the subscribers did.
\<close>

definition processAudioLoop ::
  "loop_closure \<Rightarrow> (nat \<Rightarrow> 8 word) \<Rightarrow> (nat \<Rightarrow> 8 word) \<Rightarrow> analyzer_module
     \<Rightarrow> loop_effect list \<times> analyzer_module" where
  "processAudioLoop closure td_src fd_src m =
     (case analyserNode m of
        None \<Rightarrow> ([], stopAnalysis m)
      | Some node \<Rightarrow>
          let td = getByteTimeDomainData node td_src (timeDataArray closure);
              fd = getByteFrequencyData node fd_src (frequencyDataArray closure)
          in (case calculateMetrics td (lastNoiseLevel closure) of
                (metrics_v, lastNoiseLevel_v) \<Rightarrow>
                  let closure' = closure \<lparr> timeDataArray := td, frequencyDataArray := fd,
                                            lastNoiseLevel := lastNoiseLevel_v \<rparr>
                  in (case run_subscriber (onMetricsUpdate closure)
                             (\<lambda>f. MetricsUpdate f metrics_v) m of
                        (es1, m1) \<Rightarrow>
                          (case run_subscriber (onVisualizationUpdate closure)
                                  (\<lambda>f. VisualizationUpdate f td fd) m1 of
                             (es2, m2) \<Rightarrow>
                               (case requestAnimationFrame closure' m2 of
                                  (handle, m3) \<Rightarrow>
                                    (es1 @ es2, m3 \<lparr> animationFrameId := Some handle \<rparr>))))))"

text \<open>
  A scheduling opportunity. The host takes the handles that are in the map when the frame
  starts and, for each that is still in the map when its turn comes, removes it and runs
  its callback; a callback requested during the frame waits for the next one.
\<close>

fun run_callbacks ::
  "nat list \<Rightarrow> (nat \<Rightarrow> 8 word) \<Rightarrow> (nat \<Rightarrow> 8 word) \<Rightarrow> analyzer_module
     \<Rightarrow> loop_effect list \<times> analyzer_module" where
  "run_callbacks [] td_src fd_src m = ([], m)"
| "run_callbacks (handle # handles) td_src fd_src m =
     (case map_of (frame_callbacks m) handle of
        None \<Rightarrow> run_callbacks handles td_src fd_src m
      | Some closure \<Rightarrow>
          (case processAudioLoop closure td_src fd_src (cancelAnimationFrame handle m) of
             (es, m') \<Rightarrow>
               (case run_callbacks handles td_src fd_src m' of
                  (es', m'') \<Rightarrow> (es @ es', m''))))"

definition animation_frame ::
  "(nat \<Rightarrow> 8 word) \<Rightarrow> (nat \<Rightarrow> 8 word) \<Rightarrow> analyzer_module \<Rightarrow> loop_effect list \<times> analyzer_module" where
  "animation_frame td_src fd_src m = run_callbacks (map fst (frame_callbacks m)) td_src fd_src m"

text \<open>
  What \<open>initMic\<close> and \<open>cleanup\<close> do to these variables. \<open>initMic\<close>, once \<open>getUserMedia\<close>
  has answered, makes a context (in the state the host gives it) and a node with
  \<open>fftSize = FFT_SIZE\<close>. \<open>cleanup\<close> stops the loop, drops the node and, if the context is
  not closed, closes it (the argument says whether \<open>close()\<close> succeeds); its \<open>await\<close> is
  taken as one step.
\<close>

definition initMic :: "context_state \<Rightarrow> analyzer_module \<Rightarrow> analyzer_module" where
  "initMic ctx_state m =
     m \<lparr> audioContext := Some ctx_state, analyserNode := Some \<lparr> fftSize = FFT_SIZE \<rparr> \<rparr>"

definition cleanup :: "bool \<Rightarrow> analyzer_module \<Rightarrow> analyzer_module" where
  "cleanup close_succeeds m =
     (let m1 = (stopAnalysis m) \<lparr> analyserNode := None \<rparr>
      in (case audioContext m1 of
            None \<Rightarrow> m1
          | Some ctx_state \<Rightarrow>
              if ctx_state \<noteq> Closed \<and> close_succeeds then m1 \<lparr> audioContext := None \<rparr> else m1))"

datatype loop_event =
    InitMic context_state
  | StartAnalysis "subscriber option" "subscriber option"
  | StopAnalysis
  | AnimationFrame "nat \<Rightarrow> 8 word" "nat \<Rightarrow> 8 word"
  | Cleanup bool

fun loop_step :: "loop_event \<Rightarrow> analyzer_module \<Rightarrow> loop_effect list \<times> analyzer_module" where
  "loop_step (InitMic ctx_state) m = ([], initMic ctx_state m)"
| "loop_step (StartAnalysis a b) m = ([], startAnalysis a b m)"
| "loop_step StopAnalysis m = ([], stopAnalysis m)"
| "loop_step (AnimationFrame td_src fd_src) m = animation_frame td_src fd_src m"
| "loop_step (Cleanup close_succeeds) m = ([], cleanup close_succeeds m)"

fun loop_run :: "loop_event list \<Rightarrow> analyzer_module \<Rightarrow> loop_effect list \<times> analyzer_module" where
  "loop_run [] m = ([], m)"
| "loop_run (ev # evs) m =
     (case loop_step ev m of (es, m') \<Rightarrow>
        (case loop_run evs m' of (es', m'') \<Rightarrow> (es @ es', m'')))"

text \<open>The module as the script leaves it when it is loaded.\<close>

definition analyzer_init :: analyzer_module where
  "analyzer_init =
     \<lparr> audioContext = None, analyserNode = None, animationFrameId = None,
       frame_callbacks = [], frame_handle = 0 \<rparr>"

text \<open>
  One analysis run with observers: \<open>initMic\<close>, \<open>startAnalysis\<close>, and one animation frame
  for each pair of a time-domain and a frequency-domain source. The window of a frame is
  the first \<open>FFT_SIZE\<close> samples of its time-domain source.
\<close>

definition observer :: "nat \<Rightarrow> subscriber" where
  "observer f = Subscriber f []"

definition frame_events :: "((nat \<Rightarrow> 8 word) \<times> (nat \<Rightarrow> 8 word)) list \<Rightarrow> loop_event list" where
  "frame_events frames = map (\<lambda>(td_src, fd_src). AnimationFrame td_src fd_src) frames"

definition time_window :: "(nat \<Rightarrow> 8 word) \<Rightarrow> uint8array" where
  "time_window td_src = map td_src [0 ..< FFT_SIZE]"

definition frequency_window :: "(nat \<Rightarrow> 8 word) \<Rightarrow> uint8array" where
  "frequency_window fd_src = map fd_src [0 ..< FFT_SIZE div 2]"

definition frame_windows :: "((nat \<Rightarrow> 8 word) \<times> (nat \<Rightarrow> 8 word)) list \<Rightarrow> uint8array list" where
  "frame_windows frames = map (\<lambda>(td_src, fd_src). time_window td_src) frames"

definition analysis_run ::
  "context_state \<Rightarrow> nat \<Rightarrow> nat \<Rightarrow> ((nat \<Rightarrow> 8 word) \<times> (nat \<Rightarrow> 8 word)) list
     \<Rightarrow> loop_effect list \<times> analyzer_module" where
  "analysis_run ctx_state f g frames =
     loop_run (InitMic ctx_state # StartAnalysis (Some (observer f)) (Some (observer g))
                 # frame_events frames) analyzer_init"

text \<open>
  The windows of an effect, and of a closure, have the given lengths. An effect of a tick
  is on a window when the visualization subscriber is handed that window, and the metrics
  subscriber the metrics of that window (all but the noise level, which also depends on
  the ticks before).
\<close>

fun effect_windows_sized :: "nat \<Rightarrow> nat \<Rightarrow> loop_effect \<Rightarrow> bool" where
  "effect_windows_sized n k (VisualizationUpdate f td fd) = (length td = n \<and> length fd = k)"
| "effect_windows_sized n k (MetricsUpdate f metrics_v) = True"

definition closure_windows_sized :: "nat \<Rightarrow> nat \<Rightarrow> loop_closure \<Rightarrow> bool" where
  "closure_windows_sized n k closure \<longleftrightarrow>
     length (timeDataArray closure) = n \<and> length (frequencyDataArray closure) = k"

fun effect_on_window :: "uint8array \<Rightarrow> uint8array \<Rightarrow> loop_effect \<Rightarrow> bool" where
  "effect_on_window w fw (VisualizationUpdate f td fd) = (td = w \<and> fd = fw)"
| "effect_on_window w fw (MetricsUpdate f metrics_v) =
     (peakVolume metrics_v = peakVolume (fst (calculateMetrics w NegInf))
      \<and> rmsVolume metrics_v = rmsVolume (fst (calculateMetrics w NegInf))
      \<and> clipping metrics_v = clipping (fst (calculateMetrics w NegInf))
      \<and> isSilent metrics_v = isSilent (fst (calculateMetrics w NegInf))
      \<and> dcOffset metrics_v = dcOffset (fst (calculateMetrics w NegInf)))"

fun effect_subscriber :: "loop_effect \<Rightarrow> nat" where
  "effect_subscriber (MetricsUpdate f metrics_v) = f"
| "effect_subscriber (VisualizationUpdate f td fd) = f"

section \<open>Recording sessions\<close>

text \<open>
  The chunks that the listeners keep out of the delivered ones, and one whole recording:
  start, the data events delivered while recording, the stop request, the data events
  delivered after it, and the recorder's \<open>stop\<close> event.
\<close>

definition collected :: "blob list \<Rightarrow> blob list" where
  "collected ds = filter (\<lambda>d. 0 < blob_size d) ds"

definition analyzer_session ::
  "callback option \<Rightarrow> callback option \<Rightarrow> callback option \<Rightarrow> callback option \<Rightarrow> callback option
     \<Rightarrow> blob list \<Rightarrow> blob list \<Rightarrow> rec_event list" where
  "analyzer_session onStart onStop0 onError0 onStop onError ds1 ds2 =
     StartRecording onStart onStop0 onError0 # map DataAvailable ds1
       @ StopRecording onStop onError # map DataAvailable ds2 @ [Stop]"

definition audio_session :: "recorder_host \<Rightarrow> blob list \<Rightarrow> blob list \<Rightarrow> audio_event list" where
  "audio_session host ds1 ds2 =
     AStartRecording host # map ADataAvailable ds1
       @ AStopRecording None # map ADataAvailable ds2 @ [AStop]"

text \<open>
  \<open>startRecording\<close> of js/audio.js goes past its first guard when monitoring runs on a
  stream, the host has \<open>MediaRecorder\<close>, and nothing is being recorded.
\<close>

definition ready_to_record :: "audio_module \<Rightarrow> bool" where
  "ready_to_record m \<longleftrightarrow>
     isMonitoring m \<and> mediaStream m \<noteq> None \<and> mediaRecorderSupported m \<and> \<not> isRecording m"

text \<open>Every chunk of a buffer has at least one byte.\<close>

definition chunks_nonempty :: "blob list \<Rightarrow> bool" where
  "chunks_nonempty cs = list_all (\<lambda>c. 0 < blob_size c) cs"







subsection \<open>Concrete states and inputs\<close>

definition example_audio_module :: audio_module where
  "example_audio_module =
     \<lparr> isMonitoring = True, isRecording = False, mediaStream = Some (),
       mediaRecorderSupported = True, mediaRecorder_a = None, audioChunks = [],
       analyserNode_a = None, timeDomainData = None, frequencyData = None \<rparr>"

definition example_recorder :: recorder where
  "example_recorder =
     \<lparr> state = Inactive, mimeType = ''audio/webm'',
       onRecordingStopCallback = None, onErrorCallback = None \<rparr>"

definition example_rec_module :: rec_module where
  "example_rec_module =
     \<lparr> mediaRecorder = Some example_recorder, recordedChunks = [], recordingTimerId = None \<rparr>"

definition example_host :: recorder_host where
  "example_host =
     \<lparr> isTypeSupported = (\<lambda>format. format = ''audio/ogg;codecs=opus'' \<or> format = ''audio/webm''),
       construct = (\<lambda>options. case options of None \<Rightarrow> Inr [] | Some format \<Rightarrow> Inr format),
       start_throws = None \<rparr>"

definition example_chunk :: blob where
  "example_chunk = \<lparr> blob_data = [26, 69, 223, 163], blob_type = ''audio/webm'' \<rparr>"

definition empty_chunk :: blob where
  "empty_chunk = \<lparr> blob_data = [], blob_type = [] \<rparr>"

text \<open>A host on which none of the three formats is supported, and which records MP4.\<close>

definition example_host_default :: recorder_host where
  "example_host_default =
     \<lparr> isTypeSupported = (\<lambda>format. False), construct = (\<lambda>options. Inr ''audio/mp4''),
       start_throws = None \<rparr>"

text \<open>The data of a node at rest: every sample at mid-scale, every bin empty.\<close>

definition quiet_time_data :: "nat \<Rightarrow> 8 word" where
  "quiet_time_data i = 128"

definition no_frequency_data :: "nat \<Rightarrow> 8 word" where
  "no_frequency_data i = 0"


text \<open>A host that supports none of the three formats and whose constructor throws.\<close>

definition example_host_refusing :: recorder_host where
  "example_host_refusing =
     \<lparr> isTypeSupported = (\<lambda>format. False), construct = (\<lambda>options. Inl ''NotSupportedError''),
       start_throws = None \<rparr>"

text \<open>
  A faint signal: one sample one step above mid-scale, the others at mid-scale. And a loud
  one: every sample at the negative full scale.
\<close>

definition faint_time_data :: "nat \<Rightarrow> 8 word" where
  "faint_time_data i = (if i = 0 then 129 else 128)"

definition loud_time_data :: "nat \<Rightarrow> 8 word" where
  "loud_time_data i = 0"

text \<open>
  A metrics subscriber that calls \<open>stopAnalysis\<close>, and a run with it: \<open>initMic\<close>,
  \<open>startAnalysis\<close>, one animation frame.
\<close>

definition stopping_subscriber :: subscriber where
  "stopping_subscriber = Subscriber 1 [CallStopAnalysis]"

definition stopping_run :: "loop_event list" where
  "stopping_run =
     [InitMic Running, StartAnalysis (Some stopping_subscriber) (Some (observer 2)),
      AnimationFrame quiet_time_data no_frequency_data]"

section \<open>Invariants\<close>

text \<open>
  Between two steps of the analysis loop: the node, if there is one, has
  \<open>fftSize = FFT_SIZE\<close>, and the arrays of every requested tick have the allocated
  lengths. A subscriber that calls \<open>stopAnalysis\<close> and \<open>startAnalysis\<close> can leave more than
  one tick requested.
\<close>

definition loop_windows_inv :: "analyzer_module \<Rightarrow> bool" where
  "loop_windows_inv m \<longleftrightarrow>
     (case analyserNode m of None \<Rightarrow> True | Some node \<Rightarrow> fftSize node = FFT_SIZE) \<and>
     list_all (closure_windows_sized FFT_SIZE (FFT_SIZE div 2)) (map snd (frame_callbacks m))"

text \<open>In js/audio.js each of the two arrays, when there is one, has \<open>frequencyBinCount\<close> elements.\<close>

definition audio_windows_inv :: "audio_module \<Rightarrow> bool" where
  "audio_windows_inv m \<longleftrightarrow>
     (case timeDomainData m of None \<Rightarrow> True | Some a \<Rightarrow> length a = FFT_SIZE div 2) \<and>
     (case frequencyData m of None \<Rightarrow> True | Some a \<Rightarrow> length a = FFT_SIZE div 2)"

text \<open>The noise floor that each requested tick holds in its closure.\<close>

definition requested_noise_levels :: "analyzer_module \<Rightarrow> jsnum list" where
  "requested_noise_levels m = map (\<lambda>(handle, closure). lastNoiseLevel closure) (frame_callbacks m)"

section \<open>Verification of the metrics\<close>

subsection \<open>The loop in closed form\<close>

lemma Max_insert_max:
  "finite S \<Longrightarrow> Max (insert (max p q) S) = Max (insert (p::real) (insert q S))"
  by (cases "S = {}") (simp_all add: max.assoc)

lemma for_samples_sums:
  "for_samples w (p, sq, sv, c) =
     (Max (insert p ((\<lambda>b. \<bar>valueFloat b\<bar>) ` set w)),
      sq + sum_list (map (\<lambda>b. valueFloat b * valueFloat b) w),
      sv + sum_list (map valueFloat w),
      c \<or> (\<exists>b\<in>set w. b \<ge> 254 \<or> b \<le> 1))"
proof (induction w arbitrary: p sq sv c)
  case Nil
  then show ?case by simp
next
  case (Cons b w)
  have m: "Max (insert (max p \<bar>valueFloat b\<bar>) ((\<lambda>b. \<bar>valueFloat b\<bar>) ` set w))
         = Max (insert p ((\<lambda>b. \<bar>valueFloat b\<bar>) ` set (b # w)))"
    by (simp add: Max_insert_max)
  show ?case
    unfolding for_samples.simps sample_step.simps Cons.IH m
    by auto
qed

lemma valueFloat_abs_le_1: "\<bar>valueFloat b\<bar> \<le> 1"
proof -
  have "unat b < 256" using unsigned_less [of b, where ?'a = nat] by simp
  then have "real (unat b) < real 256" by (simp only: of_nat_less_iff)
  moreover have "0 \<le> real (unat b)" by (simp only: of_nat_0_le_iff)
  ultimately show ?thesis unfolding valueFloat_def by (simp only: abs_le_iff) linarith
qed

lemma peak_of_bounds: "0 \<le> peak_of w" "peak_of w \<le> 1"
  by (simp_all add: peak_of_def valueFloat_abs_le_1)

lemma peak_of_ge: "b \<in> set w \<Longrightarrow> \<bar>valueFloat b\<bar> \<le> peak_of w"
  by (simp add: peak_of_def)

lemma sumsq_of_nonneg: "0 \<le> sumsq_of w"
  unfolding sumsq_of_def by (rule sum_list_nonneg) auto

lemma sumsq_of_le: "sumsq_of w \<le> real (length w) * (peak_of w)\<^sup>2"
proof -
  have "sum_list (map (\<lambda>b. valueFloat b * valueFloat b) w)
        \<le> sum_list (map (\<lambda>b. (peak_of w)\<^sup>2) w)"
  proof (rule sum_list_mono)
    fix b assume "b \<in> set w"
    then have "\<bar>valueFloat b\<bar> \<le> peak_of w" by (rule peak_of_ge)
    then have "\<bar>valueFloat b\<bar>\<^sup>2 \<le> (peak_of w)\<^sup>2" by (rule power_mono) simp
    then show "valueFloat b * valueFloat b \<le> (peak_of w)\<^sup>2"
      by (simp add: power2_eq_square)
  qed
  also have "\<dots> = real (length w) * (peak_of w)\<^sup>2"
    by (simp add: sum_list_triv)
  finally show ?thesis by (simp add: sumsq_of_def)
qed

lemma rms_le_peak:
  assumes "w \<noteq> []"
  shows "sqrt (sumsq_of w / real (length w)) \<le> peak_of w"
proof -
  have n: "0 < real (length w)" using assms by simp
  have "sumsq_of w / real (length w) \<le> (peak_of w)\<^sup>2"
    using sumsq_of_le [of w] n by (simp add: pos_divide_le_eq mult.commute)
  then have "sqrt (sumsq_of w / real (length w)) \<le> sqrt ((peak_of w)\<^sup>2)"
    by (rule real_sqrt_le_mono)
  then show ?thesis using peak_of_bounds(1) [of w] by simp
qed

lemma for_samples_init:
  "for_samples w (0, 0, 0, False) =
     (peak_of w, sumsq_of w, sum_list (map valueFloat w), \<exists>b\<in>set w. b \<ge> 254 \<or> b \<le> 1)"
  by (simp add: for_samples_sums peak_of_def sumsq_of_def)

lemma rmsDBFS_of_eq:
  "rmsDBFS_of w =
     (if w \<noteq> [] \<and> 0 < sumsq_of w
      then Fin (20 * log 10 (sqrt (sumsq_of w / real (length w)))) else NegInf)"
proof (cases "w = []")
  case True
  then show ?thesis by (simp add: rmsDBFS_of_def sumsq_of_def js_gt_def)
next
  case False
  then have n: "0 < real (length w)" by simp
  have nn: "\<not> sumsq_of w / real (length w) < 0"
    using sumsq_of_nonneg [of w] n by (simp add: not_less)
  have pos: "0 < sumsq_of w / real (length w) \<longleftrightarrow> 0 < sumsq_of w"
    using n by (simp add: zero_less_divide_iff)
  show ?thesis
    using False nn pos
    by (simp add: rmsDBFS_of_def for_samples_init js_gt_def)
qed

lemma calculateMetrics_eq:
  "calculateMetrics w l =
     (\<lparr> peakVolume = (if 0 < peak_of w then Fin (20 * log 10 (peak_of w)) else Fin (- 100)),
         rmsVolume = (if js_isFinite (rmsDBFS_of w) then rmsDBFS_of w else Fin (- 100)),
         clipping = (\<exists>b\<in>set w. b \<ge> 254 \<or> b \<le> 1),
         isSilent = js_lt (rmsDBFS_of w) silenceThreshold,
         noiseLevel =
           (if js_isFinite (if js_lt (rmsDBFS_of w) silenceThreshold then js_max l (rmsDBFS_of w) else l)
            then (if js_lt (rmsDBFS_of w) silenceThreshold then js_max l (rmsDBFS_of w) else l)
            else Fin (- 100)),
         dcOffset = js_div (Fin (sum_list (map valueFloat w))) (Fin (real (length w))) \<rparr>,
      (if js_lt (rmsDBFS_of w) silenceThreshold then js_max l (rmsDBFS_of w) else l))"
proof -
  have pk: "(if js_gt (Fin (peak_of w)) (Fin 0)
             then js_mul (Fin 20) (js_log10 (Fin (peak_of w))) else NegInf)
          = (if 0 < peak_of w then Fin (20 * log 10 (peak_of w)) else NegInf)"
    by (simp add: js_gt_def)
  show ?thesis
    unfolding calculateMetrics_def rmsDBFS_of_def for_samples_init Let_def prod.case pk
    by simp
qed

lemma peak_of_nonempty:
  assumes ne: "w \<noteq> []"
  shows "peak_of w = Max ((\<lambda>b. \<bar>valueFloat b\<bar>) ` set w)"
proof -
  let ?S = "(\<lambda>b. \<bar>valueFloat b\<bar>) ` set w"
  have fS: "finite ?S" by simp
  have nS: "?S \<noteq> {}" using ne by simp
  have m: "Max (insert 0 ?S) = max 0 (Max ?S)"
    using fS nS by (rule Max_insert)
  obtain b where b: "b \<in> set w" using ne by (cases w) auto
  have "\<bar>valueFloat b\<bar> \<in> ?S" using b by (rule imageI)
  with fS have "\<bar>valueFloat b\<bar> \<le> Max ?S" by (rule Max_ge)
  moreover have "0 \<le> \<bar>valueFloat b\<bar>" by (rule abs_ge_zero)
  ultimately have "0 \<le> Max ?S" by (rule order_trans [rotated])
  then show ?thesis
    unfolding peak_of_def m by (simp only: max_absorb2)
qed

lemma sumsq_of_ge_member: "b \<in> set w \<Longrightarrow> valueFloat b * valueFloat b \<le> sumsq_of w"
proof (induction w)
  case Nil
  then show ?case by simp
next
  case (Cons a w)
  have s: "sumsq_of (a # w) = valueFloat a * valueFloat a + sumsq_of w"
    by (simp add: sumsq_of_def)
  show ?case
  proof (cases "b = a")
    case True
    then show ?thesis using sumsq_of_nonneg [of w] unfolding s by simp
  next
    case False
    then have "valueFloat b * valueFloat b \<le> sumsq_of w" using Cons by simp
    moreover have "0 \<le> valueFloat a * valueFloat a" by simp
    ultimately show ?thesis unfolding s by linarith
  qed
qed

lemma peak_pos_sumsq_pos:
  assumes "0 < peak_of w"
  shows "w \<noteq> [] \<and> 0 < sumsq_of w"
proof -
  have ne: "w \<noteq> []" using assms by (auto simp: peak_of_def)
  let ?S = "(\<lambda>b. \<bar>valueFloat b\<bar>) ` set w"
  have "Max ?S \<in> ?S" using ne by (intro Max_in) simp_all
  then obtain b where b: "b \<in> set w" and mb: "Max ?S = \<bar>valueFloat b\<bar>" by blast
  have "0 < \<bar>valueFloat b\<bar>" using assms peak_of_nonempty [OF ne] mb by simp
  then have "0 < valueFloat b * valueFloat b" by (simp add: zero_less_mult_iff) arith
  also have "\<dots> \<le> sumsq_of w" using b by (rule sumsq_of_ge_member)
  finally show ?thesis using ne by simp
qed

lemma peak_of_replicate: "0 < n \<Longrightarrow> peak_of (replicate n b) = \<bar>valueFloat b\<bar>"
  by (simp add: peak_of_def)

lemma sumsq_of_replicate: "sumsq_of (replicate n b) = real n * (valueFloat b * valueFloat b)"
  by (simp add: sumsq_of_def sum_list_replicate)

lemma valueFloat_0: "valueFloat 0 = - 1"
  by (simp add: valueFloat_def)

lemma valueFloat_128: "valueFloat 128 = 0"
  by (simp add: valueFloat_def)

lemma rmsDBFS_of_not_NaN: "rmsDBFS_of w \<noteq> NaN"
  by (simp add: rmsDBFS_of_eq)

lemma js_max_not_NaN: "x \<noteq> NaN \<Longrightarrow> y \<noteq> NaN \<Longrightarrow> js_max x y \<noteq> NaN"
  by (cases x; cases y) simp_all

lemma js_le_js_max: "x \<noteq> NaN \<Longrightarrow> y \<noteq> NaN \<Longrightarrow> js_le x (js_max x y)"
  by (cases x; cases y) (simp_all add: js_le_def)

lemma js_le_refl: "x \<noteq> NaN \<Longrightarrow> js_le x x"
  by (cases x) (simp_all add: js_le_def)

lemma tick_not_NaN: "l \<noteq> NaN \<Longrightarrow> snd (calculateMetrics w l) \<noteq> NaN"
  by (simp add: calculateMetrics_eq js_max_not_NaN rmsDBFS_of_not_NaN)

lemma run_ticks_not_NaN: "l \<noteq> NaN \<Longrightarrow> run_ticks ws l \<noteq> NaN"
  by (induction ws arbitrary: l) (simp_all add: tick_not_NaN)

lemma spec_normalize_valueFloat: "spec_normalize = valueFloat"
  by (rule ext) (simp add: spec_normalize_def valueFloat_def)

lemma calculateMetrics_all_zero_bytes:
  assumes "0 < n"
  shows "fst (calculateMetrics (replicate n 0) l) =
     \<lparr> peakVolume = Fin 0, rmsVolume = Fin 0, clipping = True, isSilent = False,
       noiseLevel = (if js_isFinite l then l else Fin (- 100)), dcOffset = Fin (- 1) \<rparr>"
proof -
  have r: "rmsDBFS_of (replicate n 0) = Fin 0"
    using assms by (simp add: rmsDBFS_of_eq sumsq_of_replicate valueFloat_0)
  show ?thesis
    using assms
    by (simp add: calculateMetrics_eq r peak_of_replicate sum_list_replicate valueFloat_0
        silenceThreshold_def)
qed

lemma calculateMetrics_mid_scale:
  assumes "0 < n"
  shows "calculateMetrics (replicate n 128) l =
     (\<lparr> peakVolume = Fin (- 100), rmsVolume = Fin (- 100), clipping = False, isSilent = True,
        noiseLevel = (if js_isFinite (js_max l NegInf) then js_max l NegInf else Fin (- 100)),
        dcOffset = Fin 0 \<rparr>, js_max l NegInf)"
proof -
  have r: "rmsDBFS_of (replicate n 128) = NegInf"
    by (simp add: rmsDBFS_of_eq sumsq_of_replicate valueFloat_128)
  have c: "\<not> ((254::8 word) \<le> 128 \<or> (128::8 word) \<le> 1)"
    by (simp add: word_le_nat_alt)
  show ?thesis
    using assms c
    by (simp add: calculateMetrics_eq r peak_of_replicate sum_list_replicate valueFloat_128
        silenceThreshold_def)
qed

subsection \<open>Claims about the metrics\<close>

text \<open>
  C1: for every non-empty window, the surfaced peak and rms are the decibel conversion of
  \<open>max |v|\<close> and \<open>sqrt (mean (v\<^sup>2))\<close> over \<open>v = b / 128 - 1\<close>, with the floor -100 where
  the amplitude is not positive, and the surfaced DC offset is \<open>mean v\<close>. For every
  window, empty or not, the three surfaced decibel values are finite, and a noise level
  that is not finite is surfaced as the floor.
\<close>

theorem surfaced_metrics_follow_formulas:
  "(w \<noteq> [] \<longrightarrow>
      peakVolume (fst (calculateMetrics w l)) = Fin (spec_dB (spec_peakLinear w)) \<and>
      rmsVolume (fst (calculateMetrics w l)) = Fin (spec_dB (spec_rmsLinear w)) \<and>
      dcOffset (fst (calculateMetrics w l)) = Fin (spec_dcOffset w))
   \<and> js_isFinite (peakVolume (fst (calculateMetrics w l)))
   \<and> js_isFinite (rmsVolume (fst (calculateMetrics w l)))
   \<and> js_isFinite (noiseLevel (fst (calculateMetrics w l)))
   \<and> (\<not> js_isFinite (snd (calculateMetrics w l)) \<longrightarrow>
        noiseLevel (fst (calculateMetrics w l)) = Fin spec_floorDb)"
proof -
  have fin: "js_isFinite (peakVolume (fst (calculateMetrics w l)))"
       "js_isFinite (rmsVolume (fst (calculateMetrics w l)))"
       "js_isFinite (noiseLevel (fst (calculateMetrics w l)))"
    by (simp_all add: calculateMetrics_eq)
  have nl: "\<not> js_isFinite (snd (calculateMetrics w l)) \<longrightarrow>
        noiseLevel (fst (calculateMetrics w l)) = Fin spec_floorDb"
    by (simp add: calculateMetrics_eq spec_floorDb_def)
  have main: "peakVolume (fst (calculateMetrics w l)) = Fin (spec_dB (spec_peakLinear w)) \<and>
      rmsVolume (fst (calculateMetrics w l)) = Fin (spec_dB (spec_rmsLinear w)) \<and>
      dcOffset (fst (calculateMetrics w l)) = Fin (spec_dcOffset w)" if ne: "w \<noteq> []"
  proof -
    have n: "0 < real (length w)" using ne by simp
    have pk: "spec_peakLinear w = peak_of w"
      by (simp add: spec_peakLinear_def spec_normalize_valueFloat peak_of_nonempty [OF ne])
    have rm: "spec_rmsLinear w = sqrt (sumsq_of w / real (length w))"
      by (simp add: spec_rmsLinear_def spec_mean_def spec_normalize_valueFloat sumsq_of_def
          power2_eq_square)
    have rpos: "0 < sqrt (sumsq_of w / real (length w)) \<longleftrightarrow> 0 < sumsq_of w"
      using n by (simp add: zero_less_divide_iff)
    have dc: "spec_dcOffset w = sum_list (map valueFloat w) / real (length w)"
      by (simp add: spec_dcOffset_def spec_mean_def spec_normalize_valueFloat)
    have p: "peakVolume (fst (calculateMetrics w l)) = Fin (spec_dB (spec_peakLinear w))"
      by (simp add: calculateMetrics_eq pk spec_dB_def spec_floorDb_def)
    have r: "rmsVolume (fst (calculateMetrics w l)) = Fin (spec_dB (spec_rmsLinear w))"
      using ne rpos by (simp add: calculateMetrics_eq rmsDBFS_of_eq rm spec_dB_def spec_floorDb_def)
    have d: "dcOffset (fst (calculateMetrics w l)) = Fin (spec_dcOffset w)"
      using ne by (simp add: calculateMetrics_eq dc)
    from p r d show ?thesis by simp
  qed
  from fin nl main show ?thesis by blast
qed

theorem surfaced_metrics_follow_formulas_witness:
  "peakVolume (fst (calculateMetrics [0, 128] NegInf)) = Fin 0
   \<and> rmsVolume (fst (calculateMetrics [0, 128] NegInf)) = Fin (20 * log 10 (sqrt (1 / 2)))
   \<and> dcOffset (fst (calculateMetrics [0, 128] NegInf)) = Fin (- (1 / 2))
   \<and> \<not> js_isFinite (snd (calculateMetrics [128] NegInf))
   \<and> noiseLevel (fst (calculateMetrics [128] NegInf)) = Fin (- 100)"
proof -
  have ne: "[0, 128] \<noteq> ([] :: uint8array)" by simp
  have v: "valueFloat 0 = - 1" "valueFloat 128 = 0" by (simp_all add: valueFloat_def)
  have pk: "spec_dB (spec_peakLinear [0, 128]) = 0"
    by (simp add: spec_dB_def spec_peakLinear_def spec_normalize_valueFloat v)
  have rm: "spec_dB (spec_rmsLinear [0, 128]) = 20 * log 10 (sqrt (1 / 2))"
    by (simp add: spec_dB_def spec_rmsLinear_def spec_mean_def spec_normalize_valueFloat v)
  have dc: "spec_dcOffset [0, 128] = - (1 / 2)"
    by (simp add: spec_dcOffset_def spec_mean_def spec_normalize_valueFloat v)
  have nf: "\<not> js_isFinite (snd (calculateMetrics [128] NegInf))"
    by (simp add: calculateMetrics_eq rmsDBFS_of_eq sumsq_of_def v silenceThreshold_def)
  show ?thesis
    using surfaced_metrics_follow_formulas [of "[0, 128]" NegInf]
      surfaced_metrics_follow_formulas [of "[128]" NegInf] ne nf
    by (simp add: pk rm dc spec_floorDb_def)
qed

text \<open>
  C2, as stated: a window whose bytes are all 0 is not silence. Byte 0 is the amplitude
  -1, so the 2048-byte window of zeros has peak and rms 0 dBFS, clips, and has DC offset -1.
\<close>

theorem all_zero_bytes_are_full_scale:
  "peakVolume (fst (calculateMetrics (replicate 2048 0) NegInf)) = Fin 0
   \<and> rmsVolume (fst (calculateMetrics (replicate 2048 0) NegInf)) = Fin 0
   \<and> clipping (fst (calculateMetrics (replicate 2048 0) NegInf))
   \<and> dcOffset (fst (calculateMetrics (replicate 2048 0) NegInf)) = Fin (- 1)
   \<and> \<not> (peakVolume (fst (calculateMetrics (replicate 2048 0) NegInf)) = Fin (- 100)
        \<and> rmsVolume (fst (calculateMetrics (replicate 2048 0) NegInf)) = Fin (- 100)
        \<and> \<not> clipping (fst (calculateMetrics (replicate 2048 0) NegInf))
        \<and> dcOffset (fst (calculateMetrics (replicate 2048 0) NegInf)) = Fin 0)"
  by (simp add: calculateMetrics_all_zero_bytes)

text \<open>
  C2, amended: silence is the mid-scale byte 128. For every non-empty window whose bytes
  are all 128, peak and rms are the floor -100, nothing clips, the DC offset is 0, and the
  surfaced noise level is finite.
\<close>

theorem silent_window_floors:
  assumes "w \<noteq> []" and "\<forall>b\<in>set w. b = 128"
  shows "peakVolume (fst (calculateMetrics w l)) = Fin (- 100)
     \<and> rmsVolume (fst (calculateMetrics w l)) = Fin (- 100)
     \<and> clipping (fst (calculateMetrics w l)) = False
     \<and> dcOffset (fst (calculateMetrics w l)) = Fin 0
     \<and> js_isFinite (noiseLevel (fst (calculateMetrics w l)))"
proof -
  have w: "w = replicate (length w) 128"
    using assms(2) by (simp add: replicate_length_same)
  have n: "0 < length w" using assms(1) by simp
  show ?thesis
    by (subst (1 2 3 4 5) w) (simp add: calculateMetrics_mid_scale [OF n])
qed

theorem silent_window_floors_witness:
  "peakVolume (fst (calculateMetrics (replicate 2048 128) NegInf)) = Fin (- 100)
     \<and> rmsVolume (fst (calculateMetrics (replicate 2048 128) NegInf)) = Fin (- 100)
     \<and> clipping (fst (calculateMetrics (replicate 2048 128) NegInf)) = False
     \<and> dcOffset (fst (calculateMetrics (replicate 2048 128) NegInf)) = Fin 0
     \<and> js_isFinite (noiseLevel (fst (calculateMetrics (replicate 2048 128) NegInf)))"
  using silent_window_floors [of "replicate 2048 128" NegInf] by simp

text \<open>
  C6: the clipping flag is true exactly when some byte of the window is at least 254 or
  at most 1; so a window with a byte 255 or 0 clips, and a window whose bytes are all
  strictly between 1 and 254 does not.
\<close>

theorem clipping_iff_extreme_sample:
  "(clipping (fst (calculateMetrics w l)) \<longleftrightarrow> (\<exists>b\<in>set w. b \<ge> 254 \<or> b \<le> 1))
   \<and> (255 \<in> set w \<or> 0 \<in> set w \<longrightarrow> clipping (fst (calculateMetrics w l)))
   \<and> ((\<forall>b\<in>set w. 1 < b \<and> b < 254) \<longrightarrow> \<not> clipping (fst (calculateMetrics w l)))"
proof -
  have a: "clipping (fst (calculateMetrics w l)) \<longleftrightarrow> (\<exists>b\<in>set w. b \<ge> 254 \<or> b \<le> 1)"
    by (simp add: calculateMetrics_eq)
  have b: "255 \<in> set w \<or> 0 \<in> set w \<longrightarrow> (\<exists>b\<in>set w. b \<ge> 254 \<or> b \<le> (1::8 word))"
  proof
    assume "255 \<in> set w \<or> 0 \<in> set w"
    then show "\<exists>b\<in>set w. b \<ge> 254 \<or> b \<le> (1::8 word)"
    proof
      assume "255 \<in> set w"
      moreover have "(254::8 word) \<le> 255" by simp
      ultimately show ?thesis by blast
    next
      assume "0 \<in> set w"
      moreover have "(0::8 word) \<le> 1" by simp
      ultimately show ?thesis by blast
    qed
  qed
  have c: "(\<forall>b\<in>set w. 1 < b \<and> b < 254) \<longrightarrow> \<not> (\<exists>b\<in>set w. b \<ge> 254 \<or> b \<le> (1::8 word))"
    by (auto simp: not_le)
  from a b c show ?thesis by blast
qed

theorem clipping_iff_extreme_sample_witness:
  "clipping (fst (calculateMetrics [128, 255] NegInf))
   \<and> clipping (fst (calculateMetrics [0, 128] NegInf))
   \<and> \<not> clipping (fst (calculateMetrics [2, 128, 253] NegInf))"
  using clipping_iff_extreme_sample [of "[128, 255]" NegInf]
    clipping_iff_extreme_sample [of "[0, 128]" NegInf]
    clipping_iff_extreme_sample [of "[2, 128, 253]" NegInf]
  by (simp add: word_le_nat_alt word_less_nat_alt)

text \<open>
  C9: for every window, the surfaced rms is at most the surfaced peak, and the surfaced
  peak is at most 0 dBFS.
\<close>

theorem rms_le_peak_le_full_scale:
  "js_le (rmsVolume (fst (calculateMetrics w l))) (peakVolume (fst (calculateMetrics w l)))
   \<and> js_le (peakVolume (fst (calculateMetrics w l))) (Fin 0)"
proof -
  have pk0: "js_le (peakVolume (fst (calculateMetrics w l))) (Fin 0)"
  proof (cases "0 < peak_of w")
    case True
    then have "log 10 (peak_of w) \<le> 0"
      using peak_of_bounds(2) [of w] by simp
    then show ?thesis using True by (simp add: calculateMetrics_eq js_le_def)
  next
    case False
    then show ?thesis by (simp add: calculateMetrics_eq js_le_def)
  qed
  have rp: "js_le (rmsVolume (fst (calculateMetrics w l))) (peakVolume (fst (calculateMetrics w l)))"
  proof (cases "w \<noteq> [] \<and> 0 < sumsq_of w")
    case True
    then have ne: "w \<noteq> []" and sq: "0 < sumsq_of w" by simp_all
    let ?r = "sqrt (sumsq_of w / real (length w))"
    have rpos: "0 < ?r" using ne sq by (simp add: zero_less_divide_iff)
    have le: "?r \<le> peak_of w" using ne by (rule rms_le_peak)
    then have ppos: "0 < peak_of w" using rpos by linarith
    have "log 10 ?r \<le> log 10 (peak_of w)"
      using rpos ppos le by simp
    then show ?thesis
      using True ppos by (simp add: calculateMetrics_eq rmsDBFS_of_eq js_le_def)
  next
    case False
    then have p: "\<not> 0 < peak_of w" using peak_pos_sumsq_pos [of w] by blast
    have r: "rmsDBFS_of w = NegInf"
      unfolding rmsDBFS_of_eq using False by (rule if_not_P)
    show ?thesis
      using p by (simp add: calculateMetrics_eq r js_le_def)
  qed
  from rp pk0 show ?thesis by simp
qed

section \<open>Verification of recording\<close>

subsection \<open>Runs and recordings\<close>

lemma negotiateOptions_spec: "negotiateOptions supported = spec_negotiate supported"
  by (simp add: negotiateOptions_def spec_negotiate_def spec_candidates_def)

lemma rec_run_append:
  "rec_run (xs @ ys) m =
     (fst (rec_run xs m) @ fst (rec_run ys (snd (rec_run xs m))),
      snd (rec_run ys (snd (rec_run xs m))))"
  by (induction xs arbitrary: m) (simp_all add: split_beta)

lemma rec_run_Cons:
  "rec_run (x # ys) m =
     (fst (rec_step x m) @ fst (rec_run ys (snd (rec_step x m))),
      snd (rec_run ys (snd (rec_step x m))))"
  by (simp add: split_beta)

lemma rec_run_data:
  "mediaRecorder m = Some r \<Longrightarrow>
   rec_run (map DataAvailable ds) m = ([], m \<lparr> recordedChunks := recordedChunks m @ collected ds \<rparr>)"
proof (induction ds arbitrary: m)
  case Nil
  then show ?case by (simp add: collected_def)
next
  case (Cons d ds)
  have r: "mediaRecorder (ondataavailable d m) = Some r"
    using Cons.prems by (simp add: ondataavailable_def)
  show ?case
    using Cons.prems Cons.IH [OF r]
    by (simp add: ondataavailable_def collected_def)
qed

lemma audio_run_append:
  "audio_run (xs @ ys) m =
     (fst (audio_run xs m) @ fst (audio_run ys (snd (audio_run xs m))),
      snd (audio_run ys (snd (audio_run xs m))))"
  by (induction xs arbitrary: m) (simp_all add: split_beta)

lemma audio_run_Cons:
  "audio_run (x # ys) m =
     (fst (audio_step x m) @ fst (audio_run ys (snd (audio_step x m))),
      snd (audio_run ys (snd (audio_step x m))))"
  by (simp add: split_beta)

lemma audio_run_data:
  "mediaRecorder_a m = Some r \<Longrightarrow>
   audio_run (map ADataAvailable ds) m = ([], m \<lparr> audioChunks := audioChunks m @ collected ds \<rparr>)"
proof (induction ds arbitrary: m)
  case Nil
  then show ?case by (simp add: collected_def)
next
  case (Cons d ds)
  have r: "mediaRecorder_a (ondataavailable_audio d m) = Some r"
    using Cons.prems by (simp add: ondataavailable_audio_def)
  show ?case
    using Cons.prems Cons.IH [OF r]
    by (simp add: ondataavailable_audio_def collected_def)
qed

lemma collected_append: "collected (xs @ ys) = collected xs @ collected ys"
  by (simp add: collected_def)








lemma blob_size_new_Blob: "blob_size (new_Blob cs t) = sum_list (map blob_size cs)"
  by (induction cs) (simp_all add: blob_size_def new_Blob_def)

lemma invoke_OnError_ok: "list_all artifact_nonempty (invoke cb (\<lambda>f. OnError f msg))"
  by (cases cb) simp_all

lemma invoke_OnRecordingStart_ok: "list_all artifact_nonempty (invoke cb OnRecordingStart)"
  by (cases cb) simp_all

lemma invoke_OnRecordingStop_ok:
  "0 < blob_size b \<Longrightarrow> list_all artifact_nonempty (invoke cb (\<lambda>f. OnRecordingStop f (ObjectURL b)))"
  by (cases cb) simp_all

lemma new_Blob_nonempty:
  "cs \<noteq> [] \<Longrightarrow> chunks_nonempty cs \<Longrightarrow> 0 < blob_size (new_Blob cs t)"
  by (cases cs) (simp_all add: blob_size_new_Blob chunks_nonempty_def)

lemma rec_step_invariant:
  assumes "chunks_nonempty (recordedChunks m)"
  shows "chunks_nonempty (recordedChunks (snd (rec_step ev m)))
     \<and> list_all artifact_nonempty (fst (rec_step ev m))"
proof (cases ev)
  case (StartRecording a b c)
  then show ?thesis
    using assms
    by (auto simp: startRecording_def chunks_nonempty_def invoke_OnError_ok
        invoke_OnRecordingStart_ok split: option.splits)
next
  case (StopRecording b c)
  then show ?thesis
    using assms by (auto simp: stopRecording_def split: option.splits)
next
  case TimerFires
  then show ?thesis
    using assms by (auto simp: timer_fires_def stopRecording_def split: option.splits)
next
  case (DataAvailable d)
  then show ?thesis
    using assms by (auto simp: ondataavailable_def chunks_nonempty_def split: option.splits)
next
  case Stop
  show ?thesis
  proof (cases "mediaRecorder m")
    case None
    then show ?thesis using Stop assms by simp
  next
    case (Some r)
    show ?thesis
    proof (cases "recordedChunks m = []")
      case True
      then show ?thesis
        using Stop Some by (simp add: onstop_def chunks_nonempty_def invoke_OnError_ok)
    next
      case False
      have "0 < blob_size (new_Blob (recordedChunks m) (js_or (mimeType r) ''audio/webm''))"
        using False assms by (rule new_Blob_nonempty)
      then show ?thesis
        using Stop Some False
        by (simp add: onstop_def chunks_nonempty_def Let_def invoke_OnRecordingStop_ok)
    qed
  qed
next
  case (Error n msg)
  then show ?thesis
    using assms
    by (auto simp: onerror_def invoke_OnError_ok split: option.splits)
qed

lemma rec_run_invariant:
  "chunks_nonempty (recordedChunks m) \<Longrightarrow>
   chunks_nonempty (recordedChunks (snd (rec_run evs m)))
     \<and> list_all artifact_nonempty (fst (rec_run evs m))"
proof (induction evs arbitrary: m)
  case Nil
  then show ?case by simp
next
  case (Cons ev evs)
  have s: "chunks_nonempty (recordedChunks (snd (rec_step ev m)))"
    and e: "list_all artifact_nonempty (fst (rec_step ev m))"
    using rec_step_invariant [OF Cons.prems, of ev] by simp_all
  show ?case
    using Cons.IH [OF s] e by (simp add: split_beta)
qed

lemma audio_step_invariant:
  assumes "chunks_nonempty (audioChunks m)"
  shows "chunks_nonempty (audioChunks (snd (audio_step ev m)))
     \<and> list_all playback_nonempty (fst (audio_step ev m))"
proof (cases ev)
  case (AStartMonitoring getUserMedia t)
  have "audioChunks (snd (snd (startMonitoring getUserMedia t m))) = audioChunks m"
    by (auto simp: startMonitoring_def stopMonitoring_def stopRecording_audio_def Let_def
        split: sum.splits option.splits)
  moreover have "list_all playback_nonempty (fst (snd (startMonitoring getUserMedia t m)))"
    by (auto simp: startMonitoring_def stopMonitoring_def stopRecording_audio_def Let_def
        split: sum.splits option.splits)
  ultimately show ?thesis using assms AStartMonitoring by simp
next
  case (AStopMonitoring t)
  have "audioChunks (snd (snd (stopMonitoring t m))) = audioChunks m"
    by (auto simp: stopMonitoring_def stopRecording_audio_def Let_def split: option.splits)
  moreover have "list_all playback_nonempty (fst (snd (stopMonitoring t m)))"
    by (auto simp: stopMonitoring_def stopRecording_audio_def Let_def split: option.splits)
  ultimately show ?thesis using assms AStopMonitoring by simp
next
  case (AVisualizationLoop td_src fd_src)
  have "audioChunks (snd (visualizationLoop td_src fd_src m)) = audioChunks m"
    by (auto simp: visualizationLoop_def draw_def Let_def split: option.splits)
  moreover have "list_all playback_nonempty (fst (visualizationLoop td_src fd_src m))"
    by (auto simp: visualizationLoop_def draw_def Let_def split: option.splits)
  ultimately show ?thesis using assms AVisualizationLoop by simp
next
  case (AStartRecording host)
  then show ?thesis
    using assms
    by (auto simp: startRecording_audio_def chunks_nonempty_def Let_def
        split: sum.splits option.splits)
next
  case (AStopRecording t)
  then show ?thesis
    using assms by (auto simp: stopRecording_audio_def split: option.splits)
next
  case (ADataAvailable d)
  then show ?thesis
    using assms by (auto simp: ondataavailable_audio_def chunks_nonempty_def split: option.splits)
next
  case AStop
  show ?thesis
  proof (cases "mediaRecorder_a m")
    case None
    then show ?thesis using AStop assms by simp
  next
    case (Some r)
    show ?thesis
    proof (cases "audioChunks m = []")
      case True
      then show ?thesis
        using AStop Some by (simp add: onstop_audio_def chunks_nonempty_def)
    next
      case False
      have "0 < blob_size (new_Blob (audioChunks m) (js_or (mimeType r) ''audio/webm''))"
        using False assms by (rule new_Blob_nonempty)
      then show ?thesis
        using AStop Some False
        by (simp add: onstop_audio_def chunks_nonempty_def Let_def)
    qed
  qed
next
  case (AError n)
  then show ?thesis
    using assms by (auto simp: onerror_audio_def split: option.splits)
qed

lemma audio_run_invariant:
  "chunks_nonempty (audioChunks m) \<Longrightarrow>
   chunks_nonempty (audioChunks (snd (audio_run evs m)))
     \<and> list_all playback_nonempty (fst (audio_run evs m))"
proof (induction evs arbitrary: m)
  case Nil
  then show ?case by simp
next
  case (Cons ev evs)
  have s: "chunks_nonempty (audioChunks (snd (audio_step ev m)))"
    and e: "list_all playback_nonempty (fst (audio_step ev m))"
    using audio_step_invariant [OF Cons.prems, of ev] by simp_all
  show ?case
    using Cons.IH [OF s] e by (simp add: split_beta)
qed

subsection \<open>Claims about recording\<close>

text \<open>
  C4: the negotiation of js/audio.js selects the first supported candidate of the ordered
  list Opus in WebM, Opus in Ogg, default WebM, platform default, and \<open>startRecording\<close>
  constructs the recorder with the candidate selected, whatever the host supports: it
  records with it when the constructor and \<open>start()\<close> succeed, and reports
  \<open>recStatusErrorStart\<close> when the constructor throws. With Opus in WebM unsupported and
  both Opus in Ogg and WebM supported, the candidate is Opus in Ogg, not WebM; with none of
  the three supported it is the platform default, which is still constructed.
\<close>

theorem negotiation_selects_first_supported:
  "negotiateOptions supported = spec_negotiate supported
   \<and> (\<not> supported ''audio/webm;codecs=opus'' \<and> supported ''audio/ogg;codecs=opus''
        \<and> supported ''audio/webm''
      \<longrightarrow> spec_negotiate supported = Some ''audio/ogg;codecs=opus''
          \<and> spec_negotiate supported \<noteq> Some ''audio/webm'')
   \<and> (\<not> supported ''audio/webm;codecs=opus'' \<and> \<not> supported ''audio/ogg;codecs=opus''
        \<and> \<not> supported ''audio/webm''
      \<longrightarrow> spec_negotiate supported = None)
   \<and> (ready_to_record m \<and> construct host (spec_negotiate (isTypeSupported host)) = Inr mime
        \<and> start_throws host = None
      \<longrightarrow> isRecording (snd (startRecording_audio host m))
          \<and> mediaRecorder_a (snd (startRecording_audio host m)) =
              Some \<lparr> state = Recording, mimeType = mime,
                     onRecordingStopCallback = None, onErrorCallback = None \<rparr>)
   \<and> (ready_to_record m \<and> construct host (spec_negotiate (isTypeSupported host)) = Inl err
      \<longrightarrow> \<not> isRecording (snd (startRecording_audio host m))
          \<and> mediaRecorder_a (snd (startRecording_audio host m)) = mediaRecorder_a m
          \<and> fst (startRecording_audio host m) =
              [SetRecordingStatus ''recStatusErrorStart'' ''error'' [ErrorName err],
               UpdateButtonStates True False True])"
proof -
  have a: "negotiateOptions supported = spec_negotiate supported"
    by (rule negotiateOptions_spec)
  have b: "\<not> supported ''audio/webm;codecs=opus'' \<and> supported ''audio/ogg;codecs=opus''
        \<and> supported ''audio/webm''
      \<longrightarrow> spec_negotiate supported = Some ''audio/ogg;codecs=opus''
          \<and> spec_negotiate supported \<noteq> Some ''audio/webm''"
    by (simp add: spec_negotiate_def spec_candidates_def)
  have c: "\<not> supported ''audio/webm;codecs=opus'' \<and> \<not> supported ''audio/ogg;codecs=opus''
        \<and> \<not> supported ''audio/webm''
      \<longrightarrow> spec_negotiate supported = None"
    by (simp add: spec_negotiate_def spec_candidates_def)
  have d: "isRecording (snd (startRecording_audio host m))
          \<and> mediaRecorder_a (snd (startRecording_audio host m)) =
              Some \<lparr> state = Recording, mimeType = mime,
                     onRecordingStopCallback = None, onErrorCallback = None \<rparr>"
    if "ready_to_record m" "construct host (spec_negotiate (isTypeSupported host)) = Inr mime"
       "start_throws host = None"
    using that
    by (simp add: ready_to_record_def startRecording_audio_def negotiateOptions_spec Let_def)
  have e: "\<not> isRecording (snd (startRecording_audio host m))
          \<and> mediaRecorder_a (snd (startRecording_audio host m)) = mediaRecorder_a m
          \<and> fst (startRecording_audio host m) =
              [SetRecordingStatus ''recStatusErrorStart'' ''error'' [ErrorName err],
               UpdateButtonStates True False True]"
    if "ready_to_record m" "construct host (spec_negotiate (isTypeSupported host)) = Inl err"
    using that
    by (simp add: ready_to_record_def startRecording_audio_def negotiateOptions_spec Let_def)
  from a b c d e show ?thesis by blast
qed

theorem negotiation_selects_first_supported_witness:
  "negotiateOptions (isTypeSupported example_host) = Some ''audio/ogg;codecs=opus''
   \<and> mediaRecorder_a (snd (startRecording_audio example_host example_audio_module)) =
       Some \<lparr> state = Recording, mimeType = ''audio/ogg;codecs=opus'',
              onRecordingStopCallback = None, onErrorCallback = None \<rparr>
   \<and> negotiateOptions (isTypeSupported example_host_default) = None
   \<and> isRecording (snd (startRecording_audio example_host_default example_audio_module))
   \<and> mediaRecorder_a (snd (startRecording_audio example_host_default example_audio_module)) =
       Some \<lparr> state = Recording, mimeType = ''audio/mp4'',
              onRecordingStopCallback = None, onErrorCallback = None \<rparr>
   \<and> fst (startRecording_audio example_host_refusing example_audio_module) =
       [SetRecordingStatus ''recStatusErrorStart'' ''error'' [ErrorName ''NotSupportedError''],
        UpdateButtonStates True False True]"
proof -
  have h: "\<not> isTypeSupported example_host ''audio/webm;codecs=opus''"
      "isTypeSupported example_host ''audio/ogg;codecs=opus''"
      "isTypeSupported example_host ''audio/webm''"
      "construct example_host (Some ''audio/ogg;codecs=opus'') = Inr ''audio/ogg;codecs=opus''"
      "start_throws example_host = None"
    by (simp_all add: example_host_def)
  have d: "\<not> isTypeSupported example_host_default ''audio/webm;codecs=opus''"
      "\<not> isTypeSupported example_host_default ''audio/ogg;codecs=opus''"
      "\<not> isTypeSupported example_host_default ''audio/webm''"
      "construct example_host_default None = Inr ''audio/mp4''"
      "start_throws example_host_default = None"
    by (simp_all add: example_host_default_def)
  have f: "\<not> isTypeSupported example_host_refusing ''audio/webm;codecs=opus''"
      "\<not> isTypeSupported example_host_refusing ''audio/ogg;codecs=opus''"
      "\<not> isTypeSupported example_host_refusing ''audio/webm''"
      "construct example_host_refusing None = Inl ''NotSupportedError''"
    by (simp_all add: example_host_refusing_def)
  have r: "ready_to_record example_audio_module"
    by (simp add: ready_to_record_def example_audio_module_def)
  note t1 = negotiation_selects_first_supported
      [of "isTypeSupported example_host" example_audio_module example_host
          "''audio/ogg;codecs=opus''"]
  note t2 = negotiation_selects_first_supported
      [of "isTypeSupported example_host_default" example_audio_module example_host_default
          "''audio/mp4''"]
  note t3 = negotiation_selects_first_supported
      [of "isTypeSupported example_host_refusing" example_audio_module example_host_refusing
          _ "''NotSupportedError''"]
  have s1: "spec_negotiate (isTypeSupported example_host) = Some ''audio/ogg;codecs=opus''"
    using t1 h by blast
  have a: "negotiateOptions (isTypeSupported example_host) = Some ''audio/ogg;codecs=opus''
     \<and> mediaRecorder_a (snd (startRecording_audio example_host example_audio_module)) =
       Some \<lparr> state = Recording, mimeType = ''audio/ogg;codecs=opus'',
              onRecordingStopCallback = None, onErrorCallback = None \<rparr>"
    using t1 h r s1 by metis
  have s2: "spec_negotiate (isTypeSupported example_host_default) = None"
    using t2 d by blast
  have b: "negotiateOptions (isTypeSupported example_host_default) = None
     \<and> isRecording (snd (startRecording_audio example_host_default example_audio_module))
     \<and> mediaRecorder_a (snd (startRecording_audio example_host_default example_audio_module)) =
       Some \<lparr> state = Recording, mimeType = ''audio/mp4'',
              onRecordingStopCallback = None, onErrorCallback = None \<rparr>"
    using t2 d r s2 by metis
  have s3: "spec_negotiate (isTypeSupported example_host_refusing) = None"
    using t3 f by blast
  have c: "fst (startRecording_audio example_host_refusing example_audio_module) =
       [SetRecordingStatus ''recStatusErrorStart'' ''error'' [ErrorName ''NotSupportedError''],
        UpdateButtonStates True False True]"
    using t3 f r s3 by metis
  from a b c show ?thesis by simp
qed




text \<open>
  C10: in both modules the data listener appends the chunk exactly when its size is
  positive. Hence, from an empty buffer and through any sequence of calls and events,
  every chunk in the buffer has a byte, and every artifact given to the success callback
  or to the player has a positive size.
\<close>

theorem only_nonempty_chunks_are_kept:
  "recordedChunks (ondataavailable d m) =
     (if 0 < blob_size d then recordedChunks m @ [d] else recordedChunks m)
   \<and> audioChunks (ondataavailable_audio d am) =
     (if 0 < blob_size d then audioChunks am @ [d] else audioChunks am)
   \<and> (recordedChunks m = [] \<longrightarrow>
        chunks_nonempty (recordedChunks (snd (rec_run evs m)))
        \<and> list_all artifact_nonempty (fst (rec_run evs m)))
   \<and> (audioChunks am = [] \<longrightarrow>
        chunks_nonempty (audioChunks (snd (audio_run aevs am)))
        \<and> list_all playback_nonempty (fst (audio_run aevs am)))"
proof -
  have a: "recordedChunks (ondataavailable d m) =
     (if 0 < blob_size d then recordedChunks m @ [d] else recordedChunks m)"
    by (simp add: ondataavailable_def)
  have b: "audioChunks (ondataavailable_audio d am) =
     (if 0 < blob_size d then audioChunks am @ [d] else audioChunks am)"
    by (simp add: ondataavailable_audio_def)
  have c: "chunks_nonempty (recordedChunks (snd (rec_run evs m)))
        \<and> list_all artifact_nonempty (fst (rec_run evs m))" if "recordedChunks m = []"
    by (rule rec_run_invariant) (simp add: that chunks_nonempty_def)
  have e: "chunks_nonempty (audioChunks (snd (audio_run aevs am)))
        \<and> list_all playback_nonempty (fst (audio_run aevs am))" if "audioChunks am = []"
    by (rule audio_run_invariant) (simp add: that chunks_nonempty_def)
  from a b c e show ?thesis by blast
qed

theorem only_nonempty_chunks_are_kept_witness:
  "recordedChunks (snd (rec_run [StartRecording None None None, DataAvailable empty_chunk,
        DataAvailable example_chunk] example_rec_module)) = [example_chunk]
   \<and> chunks_nonempty (recordedChunks (snd (rec_run [StartRecording None None None,
        DataAvailable empty_chunk, DataAvailable example_chunk] example_rec_module)))
   \<and> fst (rec_run (analyzer_session None None None (Some 1) (Some 2) [empty_chunk] [example_chunk])
        example_rec_module) = [OnRecordingStop 1 (ObjectURL example_chunk)]
   \<and> list_all artifact_nonempty
        (fst (rec_run (analyzer_session None None None (Some 1) (Some 2) [empty_chunk] [example_chunk])
           example_rec_module))
   \<and> list_all playback_nonempty
        (fst (audio_run (audio_session example_host [example_chunk] [empty_chunk])
           example_audio_module))"
proof -
  have i: "recordedChunks example_rec_module = []" "audioChunks example_audio_module = []"
    by (simp_all add: example_rec_module_def example_audio_module_def)
  have r: "recordedChunks (snd (rec_run [StartRecording None None None, DataAvailable empty_chunk,
        DataAvailable example_chunk] example_rec_module)) = [example_chunk]"
    by (simp add: example_rec_module_def example_recorder_def startRecording_def
        ondataavailable_def blob_size_def empty_chunk_def example_chunk_def)
  have e: "fst (rec_run (analyzer_session None None None (Some 1) (Some 2) [empty_chunk] [example_chunk])
        example_rec_module) = [OnRecordingStop 1 (ObjectURL example_chunk)]"
    by (simp add: analyzer_session_def example_rec_module_def example_recorder_def
        startRecording_def stopRecording_def onstop_def ondataavailable_def blob_size_def
        empty_chunk_def example_chunk_def new_Blob_def js_or_def blob_type_of_def
        ascii_lower_def)
  show ?thesis
    using i r e
      only_nonempty_chunks_are_kept [of example_chunk example_rec_module example_audio_module
        "[StartRecording None None None, DataAvailable empty_chunk, DataAvailable example_chunk]"
        "audio_session example_host [example_chunk] [empty_chunk]"]
      only_nonempty_chunks_are_kept [of example_chunk example_rec_module example_audio_module
        "analyzer_session None None None (Some 1) (Some 2) [empty_chunk] [example_chunk]"
        "audio_session example_host [example_chunk] [empty_chunk]"]
    by simp
qed

section \<open>Verification of the analysis loop and of the windows\<close>

subsection \<open>The windows of a tick\<close>

lemma length_getByteTimeDomainData [simp]:
  "length (getByteTimeDomainData node src array) = length array"
  by (simp add: getByteTimeDomainData_def)

lemma length_getByteFrequencyData [simp]:
  "length (getByteFrequencyData node src array) = length array"
  by (simp add: getByteFrequencyData_def)

lemma getByteTimeDomainData_full:
  "length array = fftSize node \<Longrightarrow>
   getByteTimeDomainData node src array = map src [0 ..< fftSize node]"
  by (simp add: getByteTimeDomainData_def)

lemma getByteFrequencyData_full:
  "length array = frequencyBinCount node \<Longrightarrow>
   getByteFrequencyData node src array = map src [0 ..< frequencyBinCount node]"
  by (simp add: getByteFrequencyData_def)

lemma FFT_SIZE_numbers: "FFT_SIZE = 2048" "FFT_SIZE div 2 = 1024"
  by (simp_all add: FFT_SIZE_def)

lemma length_time_window: "length (time_window td_src) = FFT_SIZE"
  by (simp add: time_window_def)

lemma length_frequency_window: "length (frequency_window fd_src) = FFT_SIZE div 2"
  by (simp add: frequency_window_def)

lemma metrics_on_window:
  "effect_on_window w fw (MetricsUpdate f (fst (calculateMetrics w l)))"
  by (simp add: calculateMetrics_eq)

lemma run_subscriber_all:
  "(\<And>f. P (mk f)) \<Longrightarrow> list_all P (fst (run_subscriber s mk m))"
  by (cases "(s, mk, m)" rule: run_subscriber.cases) simp_all

subsection \<open>The invariant of the analysis loop\<close>

lemma loop_windows_inv_init: "loop_windows_inv analyzer_init"
  by (simp add: loop_windows_inv_def analyzer_init_def)

lemma loop_windows_inv_initMic: "loop_windows_inv m \<Longrightarrow> loop_windows_inv (initMic ctx_state m)"
  by (simp add: loop_windows_inv_def initMic_def)

lemma loop_windows_inv_cancel:
  "loop_windows_inv m \<Longrightarrow> loop_windows_inv (cancelAnimationFrame handle m)"
  by (auto simp: loop_windows_inv_def cancelAnimationFrame_def list_all_iff)

lemma loop_windows_inv_stopAnalysis: "loop_windows_inv m \<Longrightarrow> loop_windows_inv (stopAnalysis m)"
  by (auto simp: loop_windows_inv_def stopAnalysis_def cancelAnimationFrame_def list_all_iff
      split: option.splits)

lemma loop_windows_inv_cleanup:
  "loop_windows_inv m \<Longrightarrow> loop_windows_inv (cleanup close_succeeds m)"
  using loop_windows_inv_stopAnalysis [of m]
  by (simp add: loop_windows_inv_def cleanup_def Let_def split: option.splits)

lemma loop_windows_inv_request:
  "loop_windows_inv m \<Longrightarrow> closure_windows_sized FFT_SIZE (FFT_SIZE div 2) closure \<Longrightarrow>
   loop_windows_inv ((snd (requestAnimationFrame closure m)) \<lparr> animationFrameId := h \<rparr>)"
  by (simp add: loop_windows_inv_def requestAnimationFrame_def Let_def)

lemma loop_windows_inv_startAnalysis:
  "loop_windows_inv m \<Longrightarrow> loop_windows_inv (startAnalysis a b m)"
  by (auto simp: loop_windows_inv_def startAnalysis_def requestAnimationFrame_def Let_def
      closure_windows_sized_def new_Uint8Array_def frequencyBinCount_def
      split: option.splits)

lemma loop_windows_inv_run_call: "loop_windows_inv m \<Longrightarrow> loop_windows_inv (run_call c m)"
  by (cases c) (simp_all add: loop_windows_inv_stopAnalysis loop_windows_inv_startAnalysis)

lemma loop_windows_inv_calls:
  "loop_windows_inv m \<Longrightarrow> loop_windows_inv (fold run_call calls m)"
  by (induction calls arbitrary: m) (simp_all add: loop_windows_inv_run_call)

lemma loop_windows_inv_run_subscriber:
  "loop_windows_inv m \<Longrightarrow> loop_windows_inv (snd (run_subscriber s mk m))"
  by (cases "(s, mk, m)" rule: run_subscriber.cases) (simp_all add: loop_windows_inv_calls)

lemma processAudioLoop_inv:
  assumes "loop_windows_inv m" and "closure_windows_sized FFT_SIZE (FFT_SIZE div 2) closure"
  shows "loop_windows_inv (snd (processAudioLoop closure td_src fd_src m))"
    and "list_all (effect_on_window (time_window td_src) (frequency_window fd_src))
           (fst (processAudioLoop closure td_src fd_src m))"
proof -
  have both: "loop_windows_inv (snd (processAudioLoop closure td_src fd_src m))
     \<and> list_all (effect_on_window (time_window td_src) (frequency_window fd_src))
           (fst (processAudioLoop closure td_src fd_src m))"
  proof (cases "analyserNode m")
    case None
    then show ?thesis
      using assms(1) by (simp add: processAudioLoop_def loop_windows_inv_stopAnalysis)
  next
    case (Some node)
    then have n: "fftSize node = FFT_SIZE" using assms(1) by (simp add: loop_windows_inv_def)
    have l: "length (timeDataArray closure) = fftSize node"
        "length (frequencyDataArray closure) = frequencyBinCount node"
      using assms(2) n by (simp_all add: closure_windows_sized_def frequencyBinCount_def)
    let ?td = "getByteTimeDomainData node td_src (timeDataArray closure)"
    let ?fd = "getByteFrequencyData node fd_src (frequencyDataArray closure)"
    have td: "?td = time_window td_src"
      using getByteTimeDomainData_full [OF l(1)] n by (simp add: time_window_def)
    have fd: "?fd = frequency_window fd_src"
      using getByteFrequencyData_full [OF l(2)] n
      by (simp add: frequency_window_def frequencyBinCount_def)
    let ?metrics = "fst (calculateMetrics ?td (lastNoiseLevel closure))"
    let ?closure' = "closure \<lparr> timeDataArray := ?td, frequencyDataArray := ?fd,
        lastNoiseLevel := snd (calculateMetrics ?td (lastNoiseLevel closure)) \<rparr>"
    let ?s1 = "run_subscriber (onMetricsUpdate closure) (\<lambda>f. MetricsUpdate f ?metrics) m"
    let ?s2 = "run_subscriber (onVisualizationUpdate closure)
                 (\<lambda>f. VisualizationUpdate f ?td ?fd) (snd ?s1)"
    have p: "processAudioLoop closure td_src fd_src m =
       (fst ?s1 @ fst ?s2,
        (snd (requestAnimationFrame ?closure' (snd ?s2)))
          \<lparr> animationFrameId := Some (fst (requestAnimationFrame ?closure' (snd ?s2))) \<rparr>)"
      using Some by (simp add: processAudioLoop_def Let_def split_beta)
    have i2: "loop_windows_inv (snd ?s2)"
      using assms(1) by (intro loop_windows_inv_run_subscriber)
    have c': "closure_windows_sized FFT_SIZE (FFT_SIZE div 2) ?closure'"
      using assms(2) by (simp add: closure_windows_sized_def)
    have e1: "list_all (effect_on_window (time_window td_src) (frequency_window fd_src)) (fst ?s1)"
      unfolding td by (rule run_subscriber_all) (rule metrics_on_window)
    have e2: "list_all (effect_on_window (time_window td_src) (frequency_window fd_src)) (fst ?s2)"
      by (rule run_subscriber_all) (simp add: td fd)
    show ?thesis
      unfolding p using loop_windows_inv_request [OF i2 c'] e1 e2 by simp
  qed
  from both show "loop_windows_inv (snd (processAudioLoop closure td_src fd_src m))" by simp
  from both show "list_all (effect_on_window (time_window td_src) (frequency_window fd_src))
           (fst (processAudioLoop closure td_src fd_src m))" by simp
qed

lemma map_of_frame_callbacks:
  assumes "loop_windows_inv m" and "map_of (frame_callbacks m) handle = Some closure"
  shows "closure_windows_sized FFT_SIZE (FFT_SIZE div 2) closure"
proof -
  have "(handle, closure) \<in> set (frame_callbacks m)" using assms(2) by (rule map_of_SomeD)
  then have "closure \<in> set (map snd (frame_callbacks m))" by force
  then show ?thesis using assms(1) by (auto simp: loop_windows_inv_def list_all_iff)
qed

lemma run_callbacks_inv:
  "loop_windows_inv m \<Longrightarrow>
   loop_windows_inv (snd (run_callbacks handles td_src fd_src m))
   \<and> list_all (effect_on_window (time_window td_src) (frequency_window fd_src))
        (fst (run_callbacks handles td_src fd_src m))"
proof (induction handles arbitrary: m)
  case Nil
  then show ?case by simp
next
  case (Cons handle handles)
  show ?case
  proof (cases "map_of (frame_callbacks m) handle")
    case None
    then show ?thesis using Cons.IH [OF Cons.prems] by simp
  next
    case (Some closure)
    have c: "closure_windows_sized FFT_SIZE (FFT_SIZE div 2) closure"
      using Cons.prems Some by (rule map_of_frame_callbacks)
    have i: "loop_windows_inv (cancelAnimationFrame handle m)"
      using Cons.prems by (rule loop_windows_inv_cancel)
    note p = processAudioLoop_inv [OF i c, of td_src fd_src]
    show ?thesis
      using Cons.IH [OF p(1)] p(2) Some by (simp add: split_beta)
  qed
qed

lemma animation_frame_inv:
  "loop_windows_inv m \<Longrightarrow>
   loop_windows_inv (snd (animation_frame td_src fd_src m))
   \<and> list_all (effect_on_window (time_window td_src) (frequency_window fd_src))
        (fst (animation_frame td_src fd_src m))"
  unfolding animation_frame_def by (rule run_callbacks_inv)

lemma effect_on_window_sized:
  "effect_on_window (time_window td_src) (frequency_window fd_src) e \<Longrightarrow>
   effect_windows_sized FFT_SIZE (FFT_SIZE div 2) e"
  by (cases e) (simp_all add: length_time_window length_frequency_window)

lemma effects_on_window_sized:
  "list_all (effect_on_window (time_window td_src) (frequency_window fd_src)) es \<Longrightarrow>
   list_all (effect_windows_sized FFT_SIZE (FFT_SIZE div 2)) es"
  by (auto simp: list_all_iff intro: effect_on_window_sized)

lemma loop_step_inv:
  assumes "loop_windows_inv m"
  shows "loop_windows_inv (snd (loop_step ev m))
     \<and> list_all (effect_windows_sized FFT_SIZE (FFT_SIZE div 2)) (fst (loop_step ev m))"
proof (cases ev)
  case (InitMic s)
  then show ?thesis using assms by (simp add: loop_windows_inv_initMic)
next
  case (StartAnalysis a b)
  then show ?thesis using assms by (simp add: loop_windows_inv_startAnalysis)
next
  case StopAnalysis
  then show ?thesis using assms by (simp add: loop_windows_inv_stopAnalysis)
next
  case (AnimationFrame td_src fd_src)
  then show ?thesis
    using animation_frame_inv [OF assms, of td_src fd_src]
    by (auto intro: effects_on_window_sized)
next
  case (Cleanup c)
  then show ?thesis using assms by (simp add: loop_windows_inv_cleanup)
qed

lemma loop_run_inv:
  "loop_windows_inv m \<Longrightarrow>
   loop_windows_inv (snd (loop_run evs m))
     \<and> list_all (effect_windows_sized FFT_SIZE (FFT_SIZE div 2)) (fst (loop_run evs m))"
proof (induction evs arbitrary: m)
  case Nil
  then show ?case by simp
next
  case (Cons ev evs)
  have s: "loop_windows_inv (snd (loop_step ev m))"
    and e: "list_all (effect_windows_sized FFT_SIZE (FFT_SIZE div 2)) (fst (loop_step ev m))"
    using loop_step_inv [OF Cons.prems, of ev] by simp_all
  show ?case
    using Cons.IH [OF s] e by (simp add: split_beta)
qed

lemma loop_windows_inv_reachable: "loop_windows_inv (snd (loop_run evs analyzer_init))"
  using loop_run_inv [OF loop_windows_inv_init] by simp

lemma stopAnalysis_idem: "stopAnalysis (stopAnalysis m) = stopAnalysis m"
  by (cases "animationFrameId m") (auto simp: stopAnalysis_def cancelAnimationFrame_def)

subsection \<open>An analysis run with observers\<close>

lemma observer_frame:
  assumes "analyserNode m = Some \<lparr> fftSize = FFT_SIZE \<rparr>"
    and "frame_callbacks m = [(h, c)]"
    and "onMetricsUpdate c = Some (observer f)"
    and "onVisualizationUpdate c = Some (observer g)"
    and "closure_windows_sized FFT_SIZE (FFT_SIZE div 2) c"
  shows "animation_frame td_src fd_src m =
     ([MetricsUpdate f (fst (calculateMetrics (time_window td_src) (lastNoiseLevel c))),
       VisualizationUpdate g (time_window td_src) (frequency_window fd_src)],
      m \<lparr> frame_handle := frame_handle m + 1,
          frame_callbacks :=
            [(frame_handle m + 1,
              c \<lparr> timeDataArray := time_window td_src,
                  frequencyDataArray := frequency_window fd_src,
                  lastNoiseLevel := snd (calculateMetrics (time_window td_src) (lastNoiseLevel c)) \<rparr>)],
          animationFrameId := Some (frame_handle m + 1) \<rparr>)"
proof -
  let ?node = "\<lparr> fftSize = FFT_SIZE \<rparr>"
  have l: "length (timeDataArray c) = fftSize ?node"
      "length (frequencyDataArray c) = frequencyBinCount ?node"
    using assms(5) by (simp_all add: closure_windows_sized_def frequencyBinCount_def)
  have td: "getByteTimeDomainData ?node td_src (timeDataArray c) = time_window td_src"
    using getByteTimeDomainData_full [OF l(1)] by (simp add: time_window_def)
  have fd: "getByteFrequencyData ?node fd_src (frequencyDataArray c) = frequency_window fd_src"
    using getByteFrequencyData_full [OF l(2)]
    by (simp add: frequency_window_def frequencyBinCount_def)
  show ?thesis
    using assms(1,2,3,4)
    by (simp add: animation_frame_def processAudioLoop_def cancelAnimationFrame_def
        requestAnimationFrame_def observer_def Let_def split_beta td fd)
qed

lemma observer_frames:
  "analyserNode m = Some \<lparr> fftSize = FFT_SIZE \<rparr> \<Longrightarrow> frame_callbacks m = [(h, c)] \<Longrightarrow>
   onMetricsUpdate c = Some (observer f) \<Longrightarrow> onVisualizationUpdate c = Some (observer g) \<Longrightarrow>
   closure_windows_sized FFT_SIZE (FFT_SIZE div 2) c \<Longrightarrow>
   animationFrameId m = Some h \<Longrightarrow> h \<noteq> 0 \<Longrightarrow>
   \<exists>h' c'. analyserNode (snd (loop_run (frame_events frames) m)) = Some \<lparr> fftSize = FFT_SIZE \<rparr>
     \<and> frame_callbacks (snd (loop_run (frame_events frames) m)) = [(h', c')]
     \<and> onMetricsUpdate c' = Some (observer f) \<and> onVisualizationUpdate c' = Some (observer g)
     \<and> closure_windows_sized FFT_SIZE (FFT_SIZE div 2) c'
     \<and> lastNoiseLevel c' = run_ticks (frame_windows frames) (lastNoiseLevel c)
     \<and> animationFrameId (snd (loop_run (frame_events frames) m)) = Some h' \<and> h' \<noteq> 0"
proof (induction frames arbitrary: m h c)
  case Nil
  then show ?case by (simp add: frame_events_def frame_windows_def)
next
  case (Cons frame frames)
  obtain td_src fd_src where fr: "frame = (td_src, fd_src)" by (cases frame)
  let ?c = "c \<lparr> timeDataArray := time_window td_src,
                 frequencyDataArray := frequency_window fd_src,
                 lastNoiseLevel := snd (calculateMetrics (time_window td_src) (lastNoiseLevel c)) \<rparr>"
  let ?m = "m \<lparr> frame_handle := frame_handle m + 1,
                 frame_callbacks := [(frame_handle m + 1, ?c)],
                 animationFrameId := Some (frame_handle m + 1) \<rparr>"
  have s: "snd (animation_frame td_src fd_src m) = ?m"
    using observer_frame [OF Cons.prems(1-5), of td_src fd_src] by simp
  have p: "analyserNode ?m = Some \<lparr> fftSize = FFT_SIZE \<rparr>"
      "frame_callbacks ?m = [(frame_handle m + 1, ?c)]"
      "onMetricsUpdate ?c = Some (observer f)" "onVisualizationUpdate ?c = Some (observer g)"
      "closure_windows_sized FFT_SIZE (FFT_SIZE div 2) ?c"
      "animationFrameId ?m = Some (frame_handle m + 1)" "frame_handle m + 1 \<noteq> 0"
    using Cons.prems
    by (simp_all add: closure_windows_sized_def length_time_window length_frequency_window)
  have r: "snd (loop_run (frame_events (frame # frames)) m) = snd (loop_run (frame_events frames) ?m)"
    using s by (simp add: frame_events_def fr split_beta)
  have w: "run_ticks (frame_windows (frame # frames)) (lastNoiseLevel c)
         = run_ticks (frame_windows frames) (lastNoiseLevel ?c)"
    by (simp add: frame_windows_def fr)
  show ?case
    unfolding r w using Cons.IH [OF p] by simp
qed

lemma analysis_run_state:
  assumes "ctx_state \<noteq> Closed"
  shows "\<exists>h c. analyserNode (snd (analysis_run ctx_state f g frames)) = Some \<lparr> fftSize = FFT_SIZE \<rparr>
     \<and> frame_callbacks (snd (analysis_run ctx_state f g frames)) = [(h, c)]
     \<and> onMetricsUpdate c = Some (observer f) \<and> onVisualizationUpdate c = Some (observer g)
     \<and> closure_windows_sized FFT_SIZE (FFT_SIZE div 2) c
     \<and> lastNoiseLevel c = run_ticks (frame_windows frames) NegInf
     \<and> animationFrameId (snd (analysis_run ctx_state f g frames)) = Some h \<and> h \<noteq> 0"
proof -
  let ?c = "\<lparr> onMetricsUpdate = Some (observer f), onVisualizationUpdate = Some (observer g),
              timeDataArray = new_Uint8Array FFT_SIZE,
              frequencyDataArray = new_Uint8Array (FFT_SIZE div 2),
              lastNoiseLevel = NegInf \<rparr>"
  let ?m = "startAnalysis (Some (observer f)) (Some (observer g)) (initMic ctx_state analyzer_init)"
  have m: "analyserNode ?m = Some \<lparr> fftSize = FFT_SIZE \<rparr>" "frame_callbacks ?m = [(1, ?c)]"
    using assms
    by (cases ctx_state;
        simp add: startAnalysis_def initMic_def analyzer_init_def requestAnimationFrame_def
          frequencyBinCount_def Let_def)+
  have a: "animationFrameId ?m = Some 1" "(1::nat) \<noteq> 0"
    using assms
    by (cases ctx_state;
        simp add: startAnalysis_def initMic_def analyzer_init_def requestAnimationFrame_def
          frequencyBinCount_def Let_def)+
  have c: "onMetricsUpdate ?c = Some (observer f)" "onVisualizationUpdate ?c = Some (observer g)"
      "closure_windows_sized FFT_SIZE (FFT_SIZE div 2) ?c"
    by (simp_all add: closure_windows_sized_def new_Uint8Array_def)
  have r: "snd (analysis_run ctx_state f g frames) = snd (loop_run (frame_events frames) ?m)"
    by (simp add: analysis_run_def split_beta)
  show ?thesis
    unfolding r using observer_frames [OF m c a, of frames] by simp
qed

text \<open>
  Between two ticks of a run with observers, \<open>stopAnalysis\<close> does stop the loop: it cancels
  the one requested tick, and no later frame runs a tick or calls a subscriber.
\<close>

lemma animation_frame_idle:
  "frame_callbacks m = [] \<Longrightarrow> animation_frame td_src fd_src m = ([], m)"
  by (simp add: animation_frame_def)

lemma frames_when_idle:
  "frame_callbacks m = [] \<Longrightarrow> loop_run (frame_events frames) m = ([], m)"
  by (induction frames) (auto simp: frame_events_def animation_frame_idle)

lemma stopAnalysis_between_ticks:
  assumes "ctx_state \<noteq> Closed"
  shows "frame_callbacks (stopAnalysis (snd (analysis_run ctx_state f g frames))) = []"
    and "animationFrameId (stopAnalysis (snd (analysis_run ctx_state f g frames))) = None"
    and "loop_run (frame_events later) (stopAnalysis (snd (analysis_run ctx_state f g frames)))
           = ([], stopAnalysis (snd (analysis_run ctx_state f g frames)))"
proof -
  from analysis_run_state [OF assms, of f g frames]
  obtain h c where s: "frame_callbacks (snd (analysis_run ctx_state f g frames)) = [(h, c)]"
      "animationFrameId (snd (analysis_run ctx_state f g frames)) = Some h" "h \<noteq> 0"
    by blast
  show e: "frame_callbacks (stopAnalysis (snd (analysis_run ctx_state f g frames))) = []"
    using s by (simp add: stopAnalysis_def cancelAnimationFrame_def)
  show "animationFrameId (stopAnalysis (snd (analysis_run ctx_state f g frames))) = None"
    using s by (simp add: stopAnalysis_def cancelAnimationFrame_def)
  show "loop_run (frame_events later) (stopAnalysis (snd (analysis_run ctx_state f g frames)))
           = ([], stopAnalysis (snd (analysis_run ctx_state f g frames)))"
    using e by (rule frames_when_idle)
qed

subsection \<open>The noise floor over a run\<close>

lemma run_ticks_append: "run_ticks (ws @ ws') l = run_ticks ws' (run_ticks ws l)"
  by (induction ws arbitrary: l) simp_all

lemma tick_update:
  "snd (calculateMetrics w l) =
     (if js_lt (rmsDBFS_of w) (Fin (- 50)) then js_max l (rmsDBFS_of w) else l)"
  by (simp add: calculateMetrics_eq silenceThreshold_def)

lemma js_le_trans: "js_le x y \<Longrightarrow> js_le y z \<Longrightarrow> js_le x z"
  by (cases x; cases y; cases z) (simp_all add: js_le_def)

lemma js_le_js_max2: "x \<noteq> NaN \<Longrightarrow> y \<noteq> NaN \<Longrightarrow> js_le y (js_max x y)"
  by (cases x; cases y) (simp_all add: js_le_def)

lemma tick_mono: "l \<noteq> NaN \<Longrightarrow> js_le l (snd (calculateMetrics w l))"
  by (simp add: tick_update js_le_js_max js_le_refl rmsDBFS_of_not_NaN)

lemma run_ticks_mono: "l \<noteq> NaN \<Longrightarrow> js_le l (run_ticks ws l)"
proof (induction ws arbitrary: l)
  case Nil
  then show ?case by (simp add: js_le_refl)
next
  case (Cons w ws)
  have "js_le l (snd (calculateMetrics w l))" using Cons.prems by (rule tick_mono)
  moreover have "js_le (snd (calculateMetrics w l)) (run_ticks ws (snd (calculateMetrics w l)))"
    using Cons.prems by (intro Cons.IH tick_not_NaN)
  ultimately show ?case by (simp add: js_le_trans)
qed

lemma run_ticks_bounds_silent:
  "l \<noteq> NaN \<Longrightarrow> v \<in> set ws \<Longrightarrow> js_lt (rmsDBFS_of v) (Fin (- 50)) \<Longrightarrow>
   js_le (rmsDBFS_of v) (run_ticks ws l)"
proof (induction ws arbitrary: l)
  case Nil
  then show ?case by simp
next
  case (Cons w ws)
  have n: "snd (calculateMetrics w l) \<noteq> NaN" using Cons.prems(1) by (rule tick_not_NaN)
  show ?case
  proof (cases "v = w")
    case True
    have "js_le (rmsDBFS_of v) (snd (calculateMetrics w l))"
      using Cons.prems(1,3) True by (simp add: tick_update js_le_js_max2 rmsDBFS_of_not_NaN)
    moreover have "js_le (snd (calculateMetrics w l)) (run_ticks ws (snd (calculateMetrics w l)))"
      using n by (rule run_ticks_mono)
    ultimately show ?thesis by (simp add: js_le_trans)
  next
    case False
    then have "v \<in> set ws" using Cons.prems(2) by simp
    then show ?thesis using Cons.IH [OF n _ Cons.prems(3)] by simp
  qed
qed

lemma js_max_cases: "x \<noteq> NaN \<Longrightarrow> y \<noteq> NaN \<Longrightarrow> js_max x y = x \<or> js_max x y = y"
  by (cases x; cases y) simp_all

lemma run_ticks_attained:
  "l \<noteq> NaN \<Longrightarrow>
   run_ticks ws l = l
   \<or> (\<exists>v\<in>set ws. js_lt (rmsDBFS_of v) (Fin (- 50)) \<and> run_ticks ws l = rmsDBFS_of v)"
proof (induction ws arbitrary: l)
  case Nil
  then show ?case by simp
next
  case (Cons w ws)
  let ?l = "snd (calculateMetrics w l)"
  have n: "?l \<noteq> NaN" using Cons.prems by (rule tick_not_NaN)
  have t: "?l = l \<or> (js_lt (rmsDBFS_of w) (Fin (- 50)) \<and> ?l = rmsDBFS_of w)"
    using js_max_cases [OF Cons.prems rmsDBFS_of_not_NaN, of w] by (auto simp: tick_update)
  from Cons.IH [OF n] t show ?case by auto
qed

subsection \<open>Numbers of the example windows\<close>

lemma map_faint_time_data: "map faint_time_data [0 ..< Suc n] = 129 # replicate n 128"
proof (rule nth_equalityI)
  show "length (map faint_time_data [0 ..< Suc n]) = length (129 # replicate n (128 :: 8 word))"
    by simp
next
  fix i assume "i < length (map faint_time_data [0 ..< Suc n])"
  then have i: "i < Suc n" by simp
  then have "map faint_time_data [0 ..< Suc n] ! i = faint_time_data i"
    by (simp del: upt_Suc add: nth_map_upt)
  moreover have "(129 # replicate n (128 :: 8 word)) ! i = faint_time_data i"
    using i by (cases i) (simp_all add: faint_time_data_def)
  ultimately show "map faint_time_data [0 ..< Suc n] ! i = (129 # replicate n 128) ! i" by simp
qed

lemma FFT_SIZE_Suc: "FFT_SIZE = Suc (FFT_SIZE - 1)"
  by (simp add: FFT_SIZE_def)

lemma time_window_faint: "time_window faint_time_data = 129 # replicate (FFT_SIZE - 1) 128"
  unfolding time_window_def by (subst FFT_SIZE_Suc) (rule map_faint_time_data)

lemma time_window_loud: "time_window loud_time_data = replicate FFT_SIZE 0"
  by (rule nth_equalityI) (simp_all add: time_window_def loud_time_data_def)

lemma time_window_quiet: "time_window quiet_time_data = replicate FFT_SIZE 128"
  by (rule nth_equalityI) (simp_all add: time_window_def quiet_time_data_def)

lemma valueFloat_129: "valueFloat 129 = 1 / 128"
  by (simp add: valueFloat_def)

lemma sumsq_of_faint: "sumsq_of (129 # replicate n 128) = 1 / 16384"
  by (simp add: sumsq_of_def sum_list_replicate valueFloat_129 valueFloat_128)

lemma real_FFT_SIZE: "real (Suc (FFT_SIZE - 1)) = 2048"
  by (simp add: FFT_SIZE_def)

lemma rmsDBFS_of_faint:
  "rmsDBFS_of (time_window faint_time_data) = Fin (20 * log 10 (sqrt (1 / 33554432)))"
proof -
  have "length (129 # replicate (FFT_SIZE - 1) (128 :: 8 word)) = Suc (FFT_SIZE - 1)" by simp
  then show ?thesis
    unfolding rmsDBFS_of_eq time_window_faint sumsq_of_faint
    by (simp only: real_FFT_SIZE) simp
qed

lemma faint_is_silent: "20 * log 10 (sqrt (1 / 33554432)) < - 50"
proof -
  have "(10::real) ^ 5 < 33554432" by simp
  then have "real 5 < log 10 33554432"
    by (intro less_log_of_power) simp_all
  moreover have "log 10 (sqrt (1 / 33554432)) = - log 10 33554432 / 2"
    by (simp add: log_def ln_sqrt ln_div)
  ultimately show ?thesis by simp
qed

lemma FFT_SIZE_pos: "0 < FFT_SIZE"
  by (simp add: FFT_SIZE_def)

lemma rmsDBFS_of_loud: "rmsDBFS_of (time_window loud_time_data) = Fin 0"
  using FFT_SIZE_pos
  by (simp add: rmsDBFS_of_eq time_window_loud sumsq_of_replicate valueFloat_0)

subsection \<open>The windows of js/audio.js\<close>

lemma no_draw_startRecording_audio:
  "list_all (drawn_windows_sized n k) (fst (startRecording_audio host m))"
  by (auto simp: startRecording_audio_def Let_def split: sum.splits option.splits)

lemma no_draw_stopRecording_audio:
  "list_all (drawn_windows_sized n k) (fst (stopRecording_audio t m))"
  by (auto simp: stopRecording_audio_def split: option.splits)

lemma no_draw_onstop_audio: "list_all (drawn_windows_sized n k) (fst (onstop_audio r m))"
  by (simp add: onstop_audio_def Let_def)

lemma no_draw_onerror_audio: "list_all (drawn_windows_sized n k) (fst (onerror_audio e m))"
  by (simp add: onerror_audio_def)

lemma no_draw_stopMonitoring:
  "list_all (drawn_windows_sized n k) (fst (snd (stopMonitoring t m)))"
  by (simp add: stopMonitoring_def Let_def split_beta no_draw_stopRecording_audio)

lemma no_draw_startMonitoring:
  "list_all (drawn_windows_sized n k) (fst (snd (startMonitoring g t m)))"
  by (simp add: startMonitoring_def Let_def split_beta no_draw_stopMonitoring split: sum.splits)

lemma windows_startRecording_audio:
  "timeDomainData (snd (startRecording_audio host m)) = timeDomainData m"
  "frequencyData (snd (startRecording_audio host m)) = frequencyData m"
  by (auto simp: startRecording_audio_def Let_def split: sum.splits option.splits)

lemma windows_stopRecording_audio:
  "timeDomainData (snd (stopRecording_audio t m)) = timeDomainData m"
  "frequencyData (snd (stopRecording_audio t m)) = frequencyData m"
  by (auto simp: stopRecording_audio_def split: option.splits)

lemma windows_onstop_audio:
  "timeDomainData (snd (onstop_audio r m)) = timeDomainData m"
  "frequencyData (snd (onstop_audio r m)) = frequencyData m"
  by (simp_all add: onstop_audio_def Let_def)

lemma audio_step_windows:
  assumes "audio_windows_inv m"
  shows "audio_windows_inv (snd (audio_step ev m))
     \<and> list_all (drawn_windows_sized (FFT_SIZE div 2) (FFT_SIZE div 2)) (fst (audio_step ev m))"
proof (cases ev)
  case (AStartMonitoring g t)
  have "audio_windows_inv (snd (snd (startMonitoring g t m)))"
    using assms
    by (auto simp: startMonitoring_def stopMonitoring_def Let_def split_beta audio_windows_inv_def
        new_Uint8Array_def frequencyBinCount_def split: sum.splits)
  then show ?thesis using AStartMonitoring by (simp add: no_draw_startMonitoring)
next
  case (AStopMonitoring t)
  have "audio_windows_inv (snd (snd (stopMonitoring t m)))"
    using assms by (auto simp: stopMonitoring_def Let_def split_beta audio_windows_inv_def)
  then show ?thesis using AStopMonitoring by (simp add: no_draw_stopMonitoring)
next
  case (AVisualizationLoop td_src fd_src)
  show ?thesis
    using assms AVisualizationLoop
    by (auto simp: visualizationLoop_def draw_def Let_def audio_windows_inv_def
        split: option.splits)
next
  case (AStartRecording host)
  then show ?thesis
    using assms
    by (simp add: audio_windows_inv_def windows_startRecording_audio no_draw_startRecording_audio)
next
  case (AStopRecording t)
  then show ?thesis
    using assms
    by (simp add: audio_windows_inv_def windows_stopRecording_audio no_draw_stopRecording_audio)
next
  case (ADataAvailable d)
  then show ?thesis
    using assms
    by (auto simp: audio_windows_inv_def ondataavailable_audio_def split: option.splits)
next
  case AStop
  then show ?thesis
    using assms
    by (auto simp: audio_windows_inv_def windows_onstop_audio no_draw_onstop_audio
        split: option.splits)
next
  case (AError e)
  then show ?thesis
    using assms
    by (auto simp: audio_windows_inv_def onerror_audio_def split: option.splits)
qed

lemma audio_run_windows:
  "audio_windows_inv m \<Longrightarrow>
   audio_windows_inv (snd (audio_run evs m))
     \<and> list_all (drawn_windows_sized (FFT_SIZE div 2) (FFT_SIZE div 2)) (fst (audio_run evs m))"
proof (induction evs arbitrary: m)
  case Nil
  then show ?case by simp
next
  case (Cons ev evs)
  have s: "audio_windows_inv (snd (audio_step ev m))"
    and e: "list_all (drawn_windows_sized (FFT_SIZE div 2) (FFT_SIZE div 2)) (fst (audio_step ev m))"
    using audio_step_windows [OF Cons.prems, of ev] by simp_all
  show ?case
    using Cons.IH [OF s] e by (simp add: split_beta)
qed

lemma audio_windows_inv_init: "audio_windows_inv (audio_init supported)"
  by (simp add: audio_windows_inv_def audio_init_def)

subsection \<open>Claims about the loop and the windows\<close>

text \<open>
  C3: \<open>lastNoiseLevel\<close> is a variable of the closure that the tick requests again, so an
  analysis run carries it from tick to tick. After \<open>initMic\<close>, \<open>startAnalysis\<close> with two
  observers and a tick on each of the given frames, the one requested tick holds the noise
  floor of the ticks so far, started from \<open>-Infinity\<close>, and the next frame computes its
  metrics from it. Over the windows of the ticks, from \<open>-Infinity\<close>: a tick sets the noise
  floor to \<open>max (noise floor, rms)\<close> when its rms is below -50 dB, which is when it is
  reported silent, and leaves it unchanged otherwise; the snapshot of the tick reports the
  new value, floored to -100 when it is not finite; the noise floor never decreases, over
  any further windows, silent or loud; it is at least the rms of every silent window so
  far; and it is \<open>-Infinity\<close> or the rms of one of the silent windows.
\<close>

theorem noise_floor_peak_hold:
  "(ctx_state \<noteq> Closed \<longrightarrow>
      requested_noise_levels (snd (analysis_run ctx_state f g frames))
        = [run_ticks (frame_windows frames) NegInf]
      \<and> fst (animation_frame td_src fd_src (snd (analysis_run ctx_state f g frames)))
        = [MetricsUpdate f (fst (calculateMetrics (time_window td_src)
                                   (run_ticks (frame_windows frames) NegInf))),
           VisualizationUpdate g (time_window td_src) (frequency_window fd_src)])
   \<and> run_ticks [] NegInf = NegInf
   \<and> run_ticks (ws @ [w]) NegInf =
       (if js_lt (rmsDBFS_of w) (Fin (- 50))
        then js_max (run_ticks ws NegInf) (rmsDBFS_of w) else run_ticks ws NegInf)
   \<and> isSilent (fst (calculateMetrics w (run_ticks ws NegInf))) = js_lt (rmsDBFS_of w) (Fin (- 50))
   \<and> noiseLevel (fst (calculateMetrics w (run_ticks ws NegInf))) =
       (if js_isFinite (run_ticks (ws @ [w]) NegInf)
        then run_ticks (ws @ [w]) NegInf else Fin (- 100))
   \<and> js_le (run_ticks ws NegInf) (run_ticks (ws @ ws') NegInf)
   \<and> list_all (\<lambda>v. js_lt (rmsDBFS_of v) (Fin (- 50))
                    \<longrightarrow> js_le (rmsDBFS_of v) (run_ticks ws NegInf)) ws
   \<and> (run_ticks ws NegInf = NegInf
        \<or> (\<exists>v\<in>set ws. js_lt (rmsDBFS_of v) (Fin (- 50)) \<and> run_ticks ws NegInf = rmsDBFS_of v))"
proof -
  have n: "run_ticks ws NegInf \<noteq> NaN" by (rule run_ticks_not_NaN) simp
  have a: "requested_noise_levels (snd (analysis_run ctx_state f g frames))
        = [run_ticks (frame_windows frames) NegInf]
      \<and> fst (animation_frame td_src fd_src (snd (analysis_run ctx_state f g frames)))
        = [MetricsUpdate f (fst (calculateMetrics (time_window td_src)
                                   (run_ticks (frame_windows frames) NegInf))),
           VisualizationUpdate g (time_window td_src) (frequency_window fd_src)]"
    if "ctx_state \<noteq> Closed"
  proof -
    from analysis_run_state [OF that, of f g frames]
    obtain h c where s:
        "analyserNode (snd (analysis_run ctx_state f g frames)) = Some \<lparr> fftSize = FFT_SIZE \<rparr>"
        "frame_callbacks (snd (analysis_run ctx_state f g frames)) = [(h, c)]"
        "onMetricsUpdate c = Some (observer f)" "onVisualizationUpdate c = Some (observer g)"
        "closure_windows_sized FFT_SIZE (FFT_SIZE div 2) c"
      and l: "lastNoiseLevel c = run_ticks (frame_windows frames) NegInf"
      by blast
    show ?thesis
      unfolding observer_frame [OF s, of td_src fd_src] requested_noise_levels_def
      using s(2) l by simp
  qed
  have b: "run_ticks [] NegInf = NegInf" by simp
  have c: "run_ticks (ws @ [w]) NegInf =
       (if js_lt (rmsDBFS_of w) (Fin (- 50))
        then js_max (run_ticks ws NegInf) (rmsDBFS_of w) else run_ticks ws NegInf)"
    by (simp add: run_ticks_append tick_update)
  have d: "isSilent (fst (calculateMetrics w (run_ticks ws NegInf)))
             = js_lt (rmsDBFS_of w) (Fin (- 50))"
    by (simp add: calculateMetrics_eq silenceThreshold_def)
  have e: "noiseLevel (fst (calculateMetrics w (run_ticks ws NegInf))) =
       (if js_isFinite (run_ticks (ws @ [w]) NegInf)
        then run_ticks (ws @ [w]) NegInf else Fin (- 100))"
    unfolding c by (simp add: calculateMetrics_eq silenceThreshold_def)
  have f: "js_le (run_ticks ws NegInf) (run_ticks (ws @ ws') NegInf)"
    unfolding run_ticks_append using n by (rule run_ticks_mono)
  have g: "list_all (\<lambda>v. js_lt (rmsDBFS_of v) (Fin (- 50))
                    \<longrightarrow> js_le (rmsDBFS_of v) (run_ticks ws NegInf)) ws"
    by (simp add: list_all_iff run_ticks_bounds_silent)
  have h: "run_ticks ws NegInf = NegInf
        \<or> (\<exists>v\<in>set ws. js_lt (rmsDBFS_of v) (Fin (- 50)) \<and> run_ticks ws NegInf = rmsDBFS_of v)"
    by (rule run_ticks_attained) simp
  from a b c d e f g h show ?thesis by blast
qed

theorem noise_floor_peak_hold_witness:
  "requested_noise_levels (snd (analysis_run Running 1 2
        [(faint_time_data, no_frequency_data), (loud_time_data, no_frequency_data)]))
     = [Fin (20 * log 10 (sqrt (1 / 33554432)))]
   \<and> run_ticks [time_window faint_time_data, time_window loud_time_data] NegInf
     = rmsDBFS_of (time_window faint_time_data)
   \<and> js_lt NegInf (rmsDBFS_of (time_window faint_time_data))
   \<and> js_lt (rmsDBFS_of (time_window faint_time_data)) (Fin (- 50))
   \<and> \<not> js_lt (rmsDBFS_of (time_window loud_time_data)) (Fin (- 50))
   \<and> js_le (rmsDBFS_of (time_window faint_time_data))
        (run_ticks [time_window faint_time_data, time_window loud_time_data] NegInf)"
proof -
  let ?ws = "[time_window faint_time_data, time_window loud_time_data]"
  have fw: "frame_windows [(faint_time_data, no_frequency_data), (loud_time_data, no_frequency_data)]
              = ?ws"
    by (simp add: frame_windows_def)
  have s: "js_lt (rmsDBFS_of (time_window faint_time_data)) (Fin (- 50))"
    using faint_is_silent by (simp add: rmsDBFS_of_faint)
  have q: "js_lt NegInf (rmsDBFS_of (time_window faint_time_data))"
    by (simp add: rmsDBFS_of_faint)
  have l: "\<not> js_lt (rmsDBFS_of (time_window loud_time_data)) (Fin (- 50))"
    by (simp add: rmsDBFS_of_loud)
  have r: "run_ticks ?ws NegInf = rmsDBFS_of (time_window faint_time_data)"
    using s l by (simp add: tick_update rmsDBFS_of_faint)
  note t = noise_floor_peak_hold
      [of Running 1 2 "[(faint_time_data, no_frequency_data), (loud_time_data, no_frequency_data)]"
          quiet_time_data no_frequency_data ?ws "time_window quiet_time_data" "[]"]
  have a: "requested_noise_levels (snd (analysis_run Running 1 2
        [(faint_time_data, no_frequency_data), (loud_time_data, no_frequency_data)]))
     = [run_ticks ?ws NegInf]"
    using t unfolding fw by blast
  have "list_all (\<lambda>v. js_lt (rmsDBFS_of v) (Fin (- 50))
                    \<longrightarrow> js_le (rmsDBFS_of v) (run_ticks ?ws NegInf)) ?ws"
    using t by blast
  then have b: "js_le (rmsDBFS_of (time_window faint_time_data)) (run_ticks ?ws NegInf)"
    using s by simp
  from a b r s q l show ?thesis by (simp add: rmsDBFS_of_faint)
qed

text \<open>
  C7: \<open>stopAnalysis\<close> called by a subscriber, that is inside the tick, does not stop the
  loop. In the run below the metrics subscriber calls \<open>stopAnalysis\<close>: the handle it
  cancels is the one of the tick that is running, the tick goes on to call the
  visualization subscriber and to request the next frame, and the next scheduling
  opportunity runs a tick that calls both subscribers again.
\<close>

theorem tick_survives_stopAnalysis_of_subscriber:
  "map effect_subscriber (fst (loop_run stopping_run analyzer_init)) = [1, 2]
   \<and> animationFrameId (snd (loop_run stopping_run analyzer_init)) = Some 2
   \<and> map fst (frame_callbacks (snd (loop_run stopping_run analyzer_init))) = [2]
   \<and> map effect_subscriber
       (fst (animation_frame quiet_time_data no_frequency_data
               (snd (loop_run stopping_run analyzer_init)))) = [1, 2]"
  by (simp add: stopping_run_def stopping_subscriber_def observer_def analyzer_init_def
      initMic_def startAnalysis_def requestAnimationFrame_def cancelAnimationFrame_def
      stopAnalysis_def animation_frame_def processAudioLoop_def frequencyBinCount_def
      Let_def split_beta)

text \<open>
  C8, as stated: js/audio.js allocates the time-domain array with \<open>frequencyBinCount\<close>,
  so with \<open>FFT_SIZE = 2048\<close> the time-domain window that it hands to the visualizer has
  1024 elements, not 2048.
\<close>

theorem audio_time_window_is_half:
  "map_option length
     (timeDomainData (snd (audio_run [AStartMonitoring (Inr 48000) None] (audio_init True))))
     = Some 1024
   \<and> \<not> list_all (drawn_windows_sized 2048 1024)
        (fst (audio_run [AStartMonitoring (Inr 48000) None,
                         AVisualizationLoop quiet_time_data no_frequency_data] (audio_init True)))"
  by (simp add: startMonitoring_def audio_init_def Let_def visualizationLoop_def draw_def
      new_Uint8Array_def frequencyBinCount_def FFT_SIZE_def)

text \<open>
  C8, amended: with \<open>FFT_SIZE = 2048\<close>, through any sequence of calls and frames from the
  initial state, whatever the subscribers call: every tick of js/analyzer.js reads the
  first 2048 samples of the node's time-domain data and the first 1024 bins of its
  frequency-domain data, computes its metrics from that window of 2048 samples, and hands
  that window and those bins to the visualization subscriber; the arrays of every requested
  tick have 2048 and 1024 elements. Every window that js/audio.js hands to the drawing
  functions has 1024 elements, time-domain and frequency-domain alike.
\<close>

theorem windows_have_allocated_lengths:
  "list_all (effect_windows_sized 2048 1024) (fst (loop_run evs analyzer_init))
   \<and> list_all (closure_windows_sized 2048 1024)
        (map snd (frame_callbacks (snd (loop_run evs analyzer_init))))
   \<and> length (time_window td_src) = 2048 \<and> length (frequency_window fd_src) = 1024
   \<and> list_all (effect_on_window (time_window td_src) (frequency_window fd_src))
        (fst (animation_frame td_src fd_src (snd (loop_run evs analyzer_init))))
   \<and> list_all (drawn_windows_sized 1024 1024) (fst (audio_run aevs (audio_init supported)))"
proof -
  have i: "loop_windows_inv (snd (loop_run evs analyzer_init))"
    by (rule loop_windows_inv_reachable)
  have a: "list_all (effect_windows_sized 2048 1024) (fst (loop_run evs analyzer_init))"
    using loop_run_inv [OF loop_windows_inv_init, of evs] by (simp add: FFT_SIZE_numbers)
  have b: "list_all (closure_windows_sized 2048 1024)
        (map snd (frame_callbacks (snd (loop_run evs analyzer_init))))"
    using i by (simp add: loop_windows_inv_def FFT_SIZE_numbers)
  have c: "length (time_window td_src) = 2048" "length (frequency_window fd_src) = 1024"
    by (simp_all add: length_time_window length_frequency_window FFT_SIZE_numbers)
  have d: "list_all (effect_on_window (time_window td_src) (frequency_window fd_src))
        (fst (animation_frame td_src fd_src (snd (loop_run evs analyzer_init))))"
    using animation_frame_inv [OF i] by simp
  have e: "list_all (drawn_windows_sized 1024 1024) (fst (audio_run aevs (audio_init supported)))"
    using audio_run_windows [OF audio_windows_inv_init, of aevs supported]
    by (simp add: FFT_SIZE_numbers)
  from a b c d e show ?thesis by simp
qed

theorem windows_have_allocated_lengths_witness:
  "map effect_subscriber
     (fst (animation_frame quiet_time_data no_frequency_data
             (snd (loop_run [InitMic Running, StartAnalysis (Some (observer 1)) (Some (observer 2))]
                     analyzer_init)))) = [1, 2]
   \<and> list_all (effect_on_window (time_window quiet_time_data) (frequency_window no_frequency_data))
       (fst (animation_frame quiet_time_data no_frequency_data
               (snd (loop_run [InitMic Running, StartAnalysis (Some (observer 1)) (Some (observer 2))]
                       analyzer_init))))
   \<and> length (time_window quiet_time_data) = 2048
   \<and> list_all (drawn_windows_sized 1024 1024)
        (fst (audio_run [AStartMonitoring (Inr 48000) None,
                         AVisualizationLoop quiet_time_data no_frequency_data] (audio_init True)))"
proof -
  have l: "map effect_subscriber
     (fst (animation_frame quiet_time_data no_frequency_data
             (snd (loop_run [InitMic Running, StartAnalysis (Some (observer 1)) (Some (observer 2))]
                     analyzer_init)))) = [1, 2]"
    by (simp add: observer_def analyzer_init_def initMic_def startAnalysis_def
        requestAnimationFrame_def cancelAnimationFrame_def animation_frame_def
        processAudioLoop_def frequencyBinCount_def Let_def split_beta)
  show ?thesis
    using l windows_have_allocated_lengths
      [of "[InitMic Running, StartAnalysis (Some (observer 1)) (Some (observer 2))]"
          quiet_time_data no_frequency_data
          "[AStartMonitoring (Inr 48000) None, AVisualizationLoop quiet_time_data no_frequency_data]"
          True]
    by blast
qed

end
